theory Spec2Isabelle
  imports Complex_Main
begin

section \<open>Evaluator (scripts/model\_evaluation.py)\<close>

text \<open>
  The script reads a test dataset and a fitted pipeline, predicts one label per row,
  cross-tabulates actual against predicted labels and computes four scores. Reading the
  files is taken as done: the model starts from the loaded dataset and the loaded pipeline.
  Labels are Python integers. Scores are quotients of counts; they are modelled as exact
  rationals (the value the library's float approximates).
\<close>

type_synonym label = int

datatype error =
    SeedOutOfRange
  | LengthMismatch
  | TargetNotBinary
  | PosLabelAbsent
  | KeyError string
  | NotNumeric string
  | ValueError string

record 'f row =
  features :: 'f
  DEATH_EVENT :: label

text \<open>
  \<open>np.random.seed(seed)\<close> sets the global generator. The legacy seeding accepts
  integers from 0 to 2**32 - 1 and raises ValueError otherwise. The generator state is
  modelled by the seed that produced it.
\<close>

type_synonym rng = int

definition np_random_seed :: "int \<Rightarrow> error + rng" where
  "np_random_seed seed =
     (if 0 \<le> seed \<and> seed \<le> 2 ^ 32 - 1 then Inr seed else Inl SeedOutOfRange)"

text \<open>
  A fitted pipeline is opaque: \<open>predict\<close> maps the dataset to a sequence of labels and
  may read the global generator.
\<close>

type_synonym 'f pipeline = "rng \<Rightarrow> 'f row list \<Rightarrow> label list"

definition deterministic_pipeline :: "'f pipeline \<Rightarrow> bool" where
  "deterministic_pipeline fit \<longleftrightarrow> (\<forall>r r' d. fit r d = fit r' d)"

subsection \<open>pd.crosstab\<close>

text \<open>
  \<open>pd.crosstab(index, columns, rownames, colnames)\<close> counts, for every value observed in
  \<open>index\<close> and every value observed in \<open>columns\<close>, the rows holding that pair. The row
  labels are the distinct observed values of \<open>index\<close> in ascending order, the column labels
  those of \<open>columns\<close>; a pair of observed values that never occurs together holds 0.
\<close>

record crosstab_frame =
  index_name :: string
  columns_name :: string
  index :: "label list"
  columns :: "label list"
  cells :: "nat list list"

definition unique_sorted :: "label list \<Rightarrow> label list" where
  "unique_sorted xs = sort (remdups xs)"

definition count_pair :: "label list \<Rightarrow> label list \<Rightarrow> label \<Rightarrow> label \<Rightarrow> nat" where
  "count_pair actual predicted a p =
     length (filter (\<lambda>(y, z). y = a \<and> z = p) (zip actual predicted))"

definition crosstab :: "label list \<Rightarrow> label list \<Rightarrow> string \<Rightarrow> string \<Rightarrow> crosstab_frame" where
  "crosstab actual predicted rownames colnames =
     \<lparr> index_name = rownames,
       columns_name = colnames,
       index = unique_sorted actual,
       columns = unique_sorted predicted,
       cells = map (\<lambda>a. map (\<lambda>p. count_pair actual predicted a p) (unique_sorted predicted))
                   (unique_sorted actual) \<rparr>"

fun index_of :: "label \<Rightarrow> label list \<Rightarrow> nat option" where
  "index_of a [] = None"
| "index_of a (x # xs) =
     (if x = a then Some 0 else (case index_of a xs of None \<Rightarrow> None | Some i \<Rightarrow> Some (Suc i)))"

text \<open>\<open>cm.loc[a, p]\<close>: the cell at row label \<open>a\<close> and column label \<open>p\<close>, if both exist.\<close>

definition cell_at :: "crosstab_frame \<Rightarrow> label \<Rightarrow> label \<Rightarrow> nat option" where
  "cell_at cm a p =
     (case index_of a (index cm) of
        None \<Rightarrow> None
      | Some i \<Rightarrow> (case index_of p (columns cm) of
                    None \<Rightarrow> None
                  | Some j \<Rightarrow> Some (cells cm ! i ! j)))"

definition cells_total :: "crosstab_frame \<Rightarrow> nat" where
  "cells_total cm = sum_list (map sum_list (cells cm))"

subsection \<open>sklearn.metrics\<close>

text \<open>
  The four scores are library calls with their default arguments: \<open>pos_label = 1\<close>,
  \<open>average = 'binary'\<close>, \<open>zero_division = 'warn'\<close> (a quotient with a zero denominator is
  0.0, with a warning). The binary scores raise ValueError when the labels of both
  sequences together have more than two values, or have two values neither of which is
  \<open>pos_label\<close>.
\<close>

definition present_labels :: "label list \<Rightarrow> label list \<Rightarrow> label list" where
  "present_labels y_true y_pred = unique_sorted (y_true @ y_pred)"

definition check_set_wise_labels :: "label list \<Rightarrow> label list \<Rightarrow> error + unit" where
  "check_set_wise_labels y_true y_pred =
     (let present = present_labels y_true y_pred in
      if length present > 2 then Inl TargetNotBinary
      else if 1 \<notin> set present \<and> length present \<ge> 2 then Inl PosLabelAbsent
      else Inr ())"

definition tp_sum :: "label list \<Rightarrow> label list \<Rightarrow> nat" where
  "tp_sum y_true y_pred = length (filter (\<lambda>(y, z). y = 1 \<and> z = 1) (zip y_true y_pred))"

definition pred_sum :: "label list \<Rightarrow> label list \<Rightarrow> nat" where
  "pred_sum y_true y_pred = length (filter (\<lambda>(y, z). z = 1) (zip y_true y_pred))"

definition true_sum :: "label list \<Rightarrow> label list \<Rightarrow> nat" where
  "true_sum y_true y_pred = length (filter (\<lambda>(y, z). y = 1) (zip y_true y_pred))"

definition prf_divide :: "nat \<Rightarrow> nat \<Rightarrow> rat" where
  "prf_divide numerator denominator =
     (if denominator = 0 then 0 else of_nat numerator / of_nat denominator)"

text \<open>
  \<open>accuracy_score\<close> is the mean of the indicator \<open>y_true == y_pred\<close>. On an empty input
  the mean is not a number; the model returns an error there.
\<close>

definition accuracy_score :: "label list \<Rightarrow> label list \<Rightarrow> error + rat" where
  "accuracy_score y_true y_pred =
     (if y_true = [] then Inl (ValueError ''mean of empty input'')
      else Inr (of_nat (length (filter (\<lambda>(y, z). y = z) (zip y_true y_pred)))
                / of_nat (length y_true)))"

definition precision_score :: "label list \<Rightarrow> label list \<Rightarrow> error + rat" where
  "precision_score y_true y_pred =
     (case check_set_wise_labels y_true y_pred of
        Inl e \<Rightarrow> Inl e
      | Inr _ \<Rightarrow> Inr (prf_divide (tp_sum y_true y_pred) (pred_sum y_true y_pred)))"

definition recall_score :: "label list \<Rightarrow> label list \<Rightarrow> error + rat" where
  "recall_score y_true y_pred =
     (case check_set_wise_labels y_true y_pred of
        Inl e \<Rightarrow> Inl e
      | Inr _ \<Rightarrow> Inr (prf_divide (tp_sum y_true y_pred) (true_sum y_true y_pred)))"

text \<open>
  \<open>f1_score\<close> is \<open>fbeta_score\<close> with \<open>beta = 1\<close>, computed from the counts as
  \<open>(1 + beta**2) * tp / (beta**2 * true_sum + pred_sum)\<close>.
\<close>

definition f1_score :: "label list \<Rightarrow> label list \<Rightarrow> error + rat" where
  "f1_score y_true y_pred =
     (case check_set_wise_labels y_true y_pred of
        Inl e \<Rightarrow> Inl e
      | Inr _ \<Rightarrow> Inr (prf_divide (2 * tp_sum y_true y_pred)
                                 (true_sum y_true y_pred + pred_sum y_true y_pred)))"

subsection \<open>main of model\_evaluation.py\<close>

record evaluator_files =
  confusion_matrix_csv :: crosstab_frame
  test_scores_csv :: "(string \<times> rat) list"

text \<open>
  \<open>assign(predicted = ...)\<close> raises ValueError when the predictions are not one per row.
  The two files are written last, after every score has been computed, so a run that
  raises writes nothing.
\<close>

definition model_evaluation_main :: "'f row list \<Rightarrow> 'f pipeline \<Rightarrow> int \<Rightarrow> error + evaluator_files" where
  "model_evaluation_main heart_failure_test heart_failure_fit seed =
     (case np_random_seed seed of
        Inl e \<Rightarrow> Inl e
      | Inr r \<Rightarrow>
        (let predicted = heart_failure_fit r heart_failure_test;
             actual = map DEATH_EVENT heart_failure_test in
         if length predicted \<noteq> length heart_failure_test then Inl LengthMismatch
         else
           (let cm_crosstab = crosstab actual predicted ''Actual'' ''Predicted'' in
            case accuracy_score actual predicted of
              Inl e \<Rightarrow> Inl e
            | Inr accuracy \<Rightarrow>
            (case precision_score actual predicted of
              Inl e \<Rightarrow> Inl e
            | Inr precision \<Rightarrow>
            (case recall_score actual predicted of
              Inl e \<Rightarrow> Inl e
            | Inr recall \<Rightarrow>
            (case f1_score actual predicted of
              Inl e \<Rightarrow> Inl e
            | Inr f1 \<Rightarrow>
              Inr \<lparr> confusion_matrix_csv = cm_crosstab,
                    test_scores_csv = [(''accuracy'', accuracy), (''precision'', precision),
                                       (''recall'', recall), (''f1'', f1)] \<rparr>))))))"

text \<open>A pipeline that ignores the generator and returns the given predictions.\<close>

definition fixed_predictions :: "label list \<Rightarrow> 'f pipeline" where
  "fixed_predictions ps = (\<lambda>r d. ps)"

text \<open>A test row that carries only its actual label.\<close>

definition labelled_row :: "label \<Rightarrow> unit row" where
  "labelled_row y = \<lparr> features = (), DEATH_EVENT = y \<rparr>"

text \<open>The scores as the specification words them, over the four kinds of row.\<close>

definition TP :: "label list \<Rightarrow> label list \<Rightarrow> nat" where
  "TP actual predicted = length (filter (\<lambda>(y, z). y = 1 \<and> z = 1) (zip actual predicted))"

definition FP :: "label list \<Rightarrow> label list \<Rightarrow> nat" where
  "FP actual predicted = length (filter (\<lambda>(y, z). y \<noteq> 1 \<and> z = 1) (zip actual predicted))"

definition FN :: "label list \<Rightarrow> label list \<Rightarrow> nat" where
  "FN actual predicted = length (filter (\<lambda>(y, z). y = 1 \<and> z \<noteq> 1) (zip actual predicted))"

definition correct_predictions :: "label list \<Rightarrow> label list \<Rightarrow> nat" where
  "correct_predictions actual predicted =
     length (filter (\<lambda>(y, z). y = z) (zip actual predicted))"

definition harmonic_mean :: "rat \<Rightarrow> rat \<Rightarrow> rat" where
  "harmonic_mean p r = (if p + r = 0 then 0 else 2 * p * r / (p + r))"

definition ratio :: "nat \<Rightarrow> nat \<Rightarrow> rat" where
  "ratio n d = (if d = 0 then 0 else of_nat n / of_nat d)"

section \<open>Correlation Reporter (src/correlation\_analysis.py)\<close>

text \<open>
  A DataFrame is a sequence of named columns of equal length. A cell is a number, a
  boolean or a string; missing values are not modelled. Numbers are exact reals.
\<close>

datatype cell = Num real | Bool bool | Str string

type_synonym DataFrame = "(string \<times> cell list) list"

definition n_rows :: "DataFrame \<Rightarrow> nat" where
  "n_rows df = (case df of [] \<Rightarrow> 0 | (_, col) # _ \<Rightarrow> length col)"

fun collect :: "(error + 'a) list \<Rightarrow> error + 'a list" where
  "collect [] = Inr []"
| "collect (x # xs) =
     (case x of
        Inl e \<Rightarrow> Inl e
      | Inr v \<Rightarrow> (case collect xs of Inl e \<Rightarrow> Inl e | Inr vs \<Rightarrow> Inr (v # vs)))"

subsection \<open>astype(bool)\<close>

fun astype_bool :: "cell \<Rightarrow> cell" where
  "astype_bool (Num r) = Bool (r \<noteq> 0)"
| "astype_bool (Bool b) = Bool b"
| "astype_bool (Str s) = Bool (s \<noteq> [])"

text \<open>Python's truth value of a cell: \<open>astype_bool x = Bool (truthy x)\<close>.\<close>

fun truthy :: "cell \<Rightarrow> bool" where
  "truthy (Num r) = (r \<noteq> 0)"
| "truthy (Bool b) = b"
| "truthy (Str s) = (s \<noteq> [])"

text \<open>
  \<open>df[cols] = df[cols].astype(bool)\<close>: KeyError when a column of \<open>cols\<close> is absent;
  otherwise each named column is replaced by its boolean cast, in place.
\<close>

definition astype_bool_columns :: "DataFrame \<Rightarrow> string list \<Rightarrow> error + DataFrame" where
  "astype_bool_columns df cols =
     (case filter (\<lambda>c. c \<notin> set (map fst df)) cols of
        c # _ \<Rightarrow> Inl (KeyError c)
      | [] \<Rightarrow> Inr (map (\<lambda>(name, col). if name \<in> set cols then (name, map astype_bool col)
                                      else (name, col)) df))"

text \<open>The frame with the named columns cast to boolean and every other column as it was.\<close>

definition cast_frame :: "string list \<Rightarrow> DataFrame \<Rightarrow> DataFrame" where
  "cast_frame cols df =
     map (\<lambda>(name, col). (name, if name \<in> set cols then map astype_bool col else col)) df"

fun to_float :: "cell \<Rightarrow> real option" where
  "to_float (Num r) = Some r"
| "to_float (Bool b) = Some (if b then 1 else 0)"
| "to_float (Str s) = None"

fun to_bool :: "cell \<Rightarrow> bool option" where
  "to_bool (Bool b) = Some b"
| "to_bool _ = None"

definition float_cells :: "string \<Rightarrow> cell list \<Rightarrow> error + real list" where
  "float_cells name col =
     (case those (map to_float col) of None \<Rightarrow> Inl (NotNumeric name) | Some xs \<Rightarrow> Inr xs)"

definition float_column :: "DataFrame \<Rightarrow> string \<Rightarrow> error + real list" where
  "float_column df name =
     (case map_of df name of None \<Rightarrow> Inl (KeyError name) | Some col \<Rightarrow> float_cells name col)"

definition bool_column :: "DataFrame \<Rightarrow> string \<Rightarrow> error + bool list" where
  "bool_column df name =
     (case map_of df name of
        None \<Rightarrow> Inl (KeyError name)
      | Some col \<Rightarrow> (case those (map to_bool col) of
                      None \<Rightarrow> Inl (ValueError name)
                    | Some bs \<Rightarrow> Inr bs))"

subsection \<open>StandardScaler\<close>

text \<open>
  \<open>fit\<close> learns the mean and the population standard deviation of a column; a zero
  deviation is replaced by 1. \<open>transform\<close> subtracts the mean and divides by the scale.
\<close>

record scaler_state =
  scaler_mean :: real
  scaler_scale :: real

definition column_mean :: "real list \<Rightarrow> real" where
  "column_mean xs = sum_list xs / real (length xs)"

definition column_var :: "real list \<Rightarrow> real" where
  "column_var xs = sum_list (map (\<lambda>x. (x - column_mean xs)\<^sup>2) xs) / real (length xs)"

definition StandardScaler_fit :: "real list \<Rightarrow> scaler_state" where
  "StandardScaler_fit xs =
     \<lparr> scaler_mean = column_mean xs,
       scaler_scale = (let s = sqrt (column_var xs) in if s = 0 then 1 else s) \<rparr>"

definition StandardScaler_transform :: "scaler_state \<Rightarrow> real \<Rightarrow> real" where
  "StandardScaler_transform st x = (x - scaler_mean st) / scaler_scale st"

subsection \<open>OneHotEncoder\<close>

text \<open>
  \<open>fit\<close> records the sorted distinct values of a column as its categories. With
  \<open>drop = 'if_binary'\<close> the first category is dropped when there are exactly two. At
  \<open>transform\<close> a value gets one 0/1 entry per kept category; a value that is no category
  raises ValueError under \<open>handle_unknown = 'error'\<close> and is all zeros under
  \<open>handle_unknown = 'ignore'\<close>.
\<close>

datatype handle_unknown = ErrorOnUnknown | IgnoreUnknown

datatype drop_policy = DropNone | DropIfBinary

record 'a encoder_state =
  categories :: "'a list"
  drop_idx :: "nat option"

definition OneHotEncoder_fit :: "drop_policy \<Rightarrow> ('a::linorder) list \<Rightarrow> 'a encoder_state" where
  "OneHotEncoder_fit drop_policy col =
     (let cats = sort (remdups col) in
      \<lparr> categories = cats,
        drop_idx = (if drop_policy = DropIfBinary \<and> length cats = 2 then Some 0 else None) \<rparr>)"

definition kept_categories :: "'a encoder_state \<Rightarrow> 'a list" where
  "kept_categories st =
     (case drop_idx st of
        None \<Rightarrow> categories st
      | Some i \<Rightarrow> take i (categories st) @ drop (Suc i) (categories st))"

definition OneHotEncoder_transform ::
  "handle_unknown \<Rightarrow> 'a encoder_state \<Rightarrow> 'a \<Rightarrow> error + int list" where
  "OneHotEncoder_transform policy st v =
     (if v \<in> set (categories st)
      then Inr (map (\<lambda>c. if c = v then 1 else 0) (kept_categories st))
      else (case policy of
              ErrorOnUnknown \<Rightarrow> Inl (ValueError ''Found unknown categories'')
            | IgnoreUnknown \<Rightarrow> Inr (replicate (length (kept_categories st)) 0)))"

subsection \<open>make\_column\_transformer\<close>

text \<open>
  The transformer scales the numeric columns, one-hot encodes the binary columns and
  passes every other column of the fitted frame through. Output columns are named
  \<open>standardscaler__c\<close>, \<open>onehotencoder__c_category\<close> and \<open>remainder__c\<close>, in that order.
  Fitting or transforming a frame with no rows raises ValueError.
\<close>

record transformer_state =
  scalers :: "(string \<times> scaler_state) list"
  encoders :: "(string \<times> bool encoder_state) list"
  remainder_columns :: "string list"

definition fit_scaler :: "DataFrame \<Rightarrow> string \<Rightarrow> error + (string \<times> scaler_state)" where
  "fit_scaler df c =
     (case float_column df c of Inl e \<Rightarrow> Inl e | Inr xs \<Rightarrow> Inr (c, StandardScaler_fit xs))"

definition fit_encoder :: "DataFrame \<Rightarrow> string \<Rightarrow> error + (string \<times> bool encoder_state)" where
  "fit_encoder df c =
     (case bool_column df c of
        Inl e \<Rightarrow> Inl e
      | Inr bs \<Rightarrow> Inr (c, OneHotEncoder_fit DropIfBinary bs))"

definition fit :: "DataFrame \<Rightarrow> string list \<Rightarrow> string list \<Rightarrow> error + transformer_state" where
  "fit df numeric_columns binary_columns =
     (if n_rows df = 0 then Inl (ValueError ''Found array with 0 sample(s)'')
      else
        (case collect (map (fit_scaler df) numeric_columns) of
           Inl e \<Rightarrow> Inl e
         | Inr scs \<Rightarrow>
           (case collect (map (fit_encoder df) binary_columns) of
              Inl e \<Rightarrow> Inl e
            | Inr encs \<Rightarrow>
                Inr \<lparr> scalers = scs,
                      encoders = encs,
                      remainder_columns =
                        filter (\<lambda>n. n \<notin> set numeric_columns \<and> n \<notin> set binary_columns)
                               (map fst df) \<rparr>)))"

definition scale_column :: "DataFrame \<Rightarrow> string \<times> scaler_state \<Rightarrow> error + cell list" where
  "scale_column df = (\<lambda>(c, st).
     (case float_column df c of
        Inl e \<Rightarrow> Inl e
      | Inr xs \<Rightarrow> Inr (map (\<lambda>x. Num (StandardScaler_transform st x)) xs)))"

definition encode_column ::
  "DataFrame \<Rightarrow> string \<times> bool encoder_state \<Rightarrow> error + cell list list" where
  "encode_column df = (\<lambda>(c, st).
     (case bool_column df c of
        Inl e \<Rightarrow> Inl e
      | Inr bs \<Rightarrow>
        (case collect (map (OneHotEncoder_transform IgnoreUnknown st) bs) of
           Inl e \<Rightarrow> Inl e
         | Inr encoded \<Rightarrow>
             Inr (map (\<lambda>k. map (\<lambda>r. Num (of_int (r ! k))) encoded)
                      [0 ..< length (kept_categories st)]))))"

definition passthrough_column :: "DataFrame \<Rightarrow> string \<Rightarrow> error + cell list" where
  "passthrough_column df c =
     (case map_of df c of None \<Rightarrow> Inl (KeyError c) | Some col \<Rightarrow> Inr col)"

definition transform :: "transformer_state \<Rightarrow> DataFrame \<Rightarrow> error + cell list list" where
  "transform st df =
     (if n_rows df = 0 then Inl (ValueError ''Found array with 0 sample(s)'')
      else
        (case collect (map (scale_column df) (scalers st)) of
           Inl e \<Rightarrow> Inl e
         | Inr scaled \<Rightarrow>
           (case collect (map (encode_column df) (encoders st)) of
              Inl e \<Rightarrow> Inl e
            | Inr encoded \<Rightarrow>
              (case collect (map (passthrough_column df) (remainder_columns st)) of
                 Inl e \<Rightarrow> Inl e
               | Inr passed \<Rightarrow> Inr (scaled @ concat encoded @ passed)))))"

definition str_bool :: "bool \<Rightarrow> string" where
  "str_bool b = (if b then ''True'' else ''False'')"

definition get_feature_names_out :: "transformer_state \<Rightarrow> string list" where
  "get_feature_names_out st =
     map (\<lambda>(c, _). ''standardscaler__'' @ c) (scalers st)
     @ concat (map (\<lambda>(c, enc). map (\<lambda>cat. ''onehotencoder__'' @ c @ ''_'' @ str_bool cat)
                                    (kept_categories enc))
                   (encoders st))
     @ map (\<lambda>c. ''remainder__'' @ c) (remainder_columns st)"

subsection \<open>preprocess\_data\<close>

text \<open>
  The function assigns into its arguments, so the model returns the caller's two frames
  as they are when the function returns or raises, next to the result.
\<close>

definition preprocess_data ::
  "DataFrame \<Rightarrow> DataFrame \<Rightarrow> string list \<Rightarrow> string list
   \<Rightarrow> (DataFrame \<times> DataFrame) \<times> (error + (DataFrame \<times> DataFrame \<times> string list))" where
  "preprocess_data train_df test_df numeric_columns binary_columns =
     (case astype_bool_columns train_df binary_columns of
        Inl e \<Rightarrow> ((train_df, test_df), Inl e)
      | Inr train_df' \<Rightarrow>
        (case astype_bool_columns test_df binary_columns of
           Inl e \<Rightarrow> ((train_df', test_df), Inl e)
         | Inr test_df' \<Rightarrow>
             ((train_df', test_df'),
              (case fit train_df' numeric_columns binary_columns of
                 Inl e \<Rightarrow> Inl e
               | Inr preprocessor \<Rightarrow>
                 (case transform preprocessor train_df' of
                    Inl e \<Rightarrow> Inl e
                  | Inr train_scaled \<Rightarrow>
                    (case transform preprocessor test_df' of
                       Inl e \<Rightarrow> Inl e
                     | Inr test_scaled \<Rightarrow>
                         (let column_names = get_feature_names_out preprocessor in
                          Inr (zip column_names train_scaled,
                               zip column_names test_scaled,
                               column_names))))))))"

subsection \<open>DataFrame.corr and plot\_correlation\_matrix\<close>

text \<open>
  \<open>corr()\<close> is the matrix of pairwise Pearson coefficients of the columns: the sum of
  products of deviations from the means over the square root of the product of the two
  sums of squared deviations. A zero divisor gives NaN, modelled as \<open>None\<close>. A column that
  is not numeric raises ValueError.
\<close>

definition ssqdm :: "real list \<Rightarrow> real" where
  "ssqdm xs = sum_list (map (\<lambda>x. (x - column_mean xs)\<^sup>2) xs)"

definition covxy :: "real list \<Rightarrow> real list \<Rightarrow> real" where
  "covxy xs ys =
     sum_list (map (\<lambda>(x, y). (x - column_mean xs) * (y - column_mean ys)) (zip xs ys))"

definition pearson :: "real list \<Rightarrow> real list \<Rightarrow> real option" where
  "pearson xs ys =
     (let divisor = sqrt (ssqdm xs * ssqdm ys) in
      if divisor \<noteq> 0 then Some (covxy xs ys / divisor) else None)"

record correlation_frame =
  feature_names :: "string list"
  coefficients :: "real option list list"

definition corr :: "DataFrame \<Rightarrow> error + correlation_frame" where
  "corr df =
     (case collect (map (\<lambda>(name, col). float_cells name col) df) of
        Inl e \<Rightarrow> Inl e
      | Inr cols \<Rightarrow>
          Inr \<lparr> feature_names = map fst df,
                coefficients = map (\<lambda>xs. map (\<lambda>ys. pearson xs ys) cols) cols \<rparr>)"

text \<open>\<open>reset_index().melt(id_vars='index')\<close>: one row per cell, column by column.\<close>

definition melt :: "correlation_frame \<Rightarrow> (string \<times> string \<times> real option) list" where
  "melt m =
     concat (map (\<lambda>j. map (\<lambda>i. (feature_names m ! i, feature_names m ! j,
                                  coefficients m ! i ! j))
                          [0 ..< length (feature_names m)])
                 [0 ..< length (feature_names m)])"

text \<open>
  A frame is non-degenerate when every column is numeric and has nonzero variance.
\<close>

definition non_degenerate :: "DataFrame \<Rightarrow> bool" where
  "non_degenerate df =
     list_all (\<lambda>(name, col). case those (map to_float col) of
                                 None \<Rightarrow> False
                               | Some xs \<Rightarrow> column_var xs \<noteq> 0) df"

definition dirname :: "string \<Rightarrow> string" where
  "dirname p =
     (let head = rev (dropWhile (\<lambda>c. c \<noteq> CHR ''/'') (rev p)) in
      if head \<noteq> [] \<and> filter (\<lambda>c. c \<noteq> CHR ''/'') head \<noteq> []
      then rev (dropWhile (\<lambda>c. c = CHR ''/'') (rev head))
      else head)"

record plot_result =
  chart_data :: "(string \<times> string \<times> real option) list"
  chart_title :: string
  chart_width :: nat
  chart_height :: nat
  created_directory :: "string option"
  saved_to :: "string option"
  echoed :: "string list"

definition plot_correlation_matrix ::
  "(string \<Rightarrow> bool) \<Rightarrow> DataFrame \<Rightarrow> string option \<Rightarrow> error + plot_result" where
  "plot_correlation_matrix path_exists scaled_train output_file =
     (case corr scaled_train of
        Inl e \<Rightarrow> Inl e
      | Inr correlation_matrix \<Rightarrow>
        (let correlation_long = melt correlation_matrix;
             chart = \<lparr> chart_data = correlation_long, chart_title = ''Correlation Heatmap'',
                       chart_width = 600, chart_height = 600,
                       created_directory = None, saved_to = None, echoed = [] \<rparr>
         in case output_file of
              None \<Rightarrow> Inr chart
            | Some path \<Rightarrow>
                if path = [] then Inr chart
                else
                  (let output_dir = dirname path;
                       make = (output_dir \<noteq> [] \<and> \<not> path_exists output_dir)
                   in Inr (chart \<lparr> created_directory := (if make then Some output_dir else None),
                                   saved_to := Some path,
                                   echoed := (if make
                                              then [''Directory '' @ output_dir @ '' created.'']
                                              else [])
                                             @ [''Heatmap saved to '' @ path @ ''.''] \<rparr>))))"

subsection \<open>validate\_feature\_correlations\<close>

text \<open>
  Modelled from the spec: the deepchecks check \<open>FeatureFeatureCorrelation\<close> with the
  condition \<open>add_condition_max_number_of_pairs_above_threshold(threshold, n_pairs=0)\<close> is not
  part of the sources. The specification describes it as the count of feature pairs whose
  absolute pairwise correlation exceeds the threshold; the condition passes when that
  count is at most \<open>n_pairs\<close>.
\<close>

definition pairs_above_threshold :: "correlation_frame \<Rightarrow> real \<Rightarrow> (nat \<times> nat) list" where
  "pairs_above_threshold m threshold =
     filter (\<lambda>(i, j). case coefficients m ! i ! j of None \<Rightarrow> False | Some r \<Rightarrow> \<bar>r\<bar> > threshold)
            (concat (map (\<lambda>j. map (\<lambda>i. (i, j)) [0 ..< j]) [0 ..< length (feature_names m)]))"

definition passed_conditions :: "DataFrame \<Rightarrow> real \<Rightarrow> nat \<Rightarrow> error + bool" where
  "passed_conditions dataset threshold n_pairs =
     (case corr dataset of
        Inl e \<Rightarrow> Inl e
      | Inr m \<Rightarrow> Inr (length (pairs_above_threshold m threshold) \<le> n_pairs))"

definition validate_feature_correlations :: "DataFrame \<Rightarrow> real \<Rightarrow> error + unit" where
  "validate_feature_correlations scaled_train threshold_feature_feature =
     (case passed_conditions scaled_train threshold_feature_feature 0 of
        Inl e \<Rightarrow> Inl e
      | Inr passed \<Rightarrow>
          if \<not> passed
          then Inl (ValueError
                 ''Feature-feature correlation exceeds the maximum acceptable threshold.'')
          else Inr ())"

subsection \<open>main of correlation\_analysis.py\<close>

text \<open>
  The call of \<open>validate_feature_correlations\<close> inside the \<open>try\<close> block is commented out in
  the source, so the block only echoes the message and the \<open>except\<close> branch (message to
  standard error, \<open>exit(1)\<close>) is never entered. An exception raised before the block is not
  caught: it is the \<open>Inl\<close> result.
\<close>

record process_result =
  stdout :: "string list"
  stderr :: "string list"
  exit_status :: int

definition correlation_analysis_main ::
  "(string \<Rightarrow> bool) \<Rightarrow> DataFrame \<Rightarrow> DataFrame \<Rightarrow> string option \<Rightarrow> real
   \<Rightarrow> error + process_result" where
  "correlation_analysis_main path_exists train_df test_df output_file threshold_feature_feature =
     (let numeric_columns = [''age'', ''creatinine_phosphokinase'', ''ejection_fraction'',
                             ''platelets'', ''serum_creatinine'', ''serum_sodium'', ''time''];
          binary_columns = [''anaemia'', ''diabetes'', ''high_blood_pressure'', ''sex'',
                            ''smoking'']
      in case snd (preprocess_data train_df test_df numeric_columns binary_columns) of
           Inl e \<Rightarrow> Inl e
         | Inr (scaled_train, _, _) \<Rightarrow>
           (case plot_correlation_matrix path_exists scaled_train output_file of
              Inl e \<Rightarrow> Inl e
            | Inr plotted \<Rightarrow>
                Inr \<lparr> stdout = echoed plotted
                                @ [''All feature-feature correlation checks passed.''],
                      stderr = [],
                      exit_status = 0 \<rparr>))"

text \<open>
  A two-row dataset with the required schema in which \<open>age\<close> and \<open>time\<close> rise together,
  so that their correlation is 1.
\<close>

definition collinear_frame :: DataFrame where
  "collinear_frame =
     [(''age'', [Num 60, Num 62]),
      (''anaemia'', [Num 0, Num 1]),
      (''creatinine_phosphokinase'', [Num 582, Num 580]),
      (''diabetes'', [Num 0, Num 1]),
      (''ejection_fraction'', [Num 38, Num 40]),
      (''high_blood_pressure'', [Num 1, Num 0]),
      (''platelets'', [Num 265, Num 263]),
      (''serum_creatinine'', [Num 1, Num 3]),
      (''serum_sodium'', [Num 136, Num 134]),
      (''sex'', [Num 1, Num 0]),
      (''smoking'', [Num 0, Num 1]),
      (''time'', [Num 10, Num 12]),
      (''DEATH_EVENT'', [Num 1, Num 0])]"

definition collinear_scaled :: DataFrame where
  "collinear_scaled =
     [(''standardscaler__age'', [Num (- 1), Num 1]),
      (''standardscaler__creatinine_phosphokinase'', [Num 1, Num (- 1)]),
      (''standardscaler__ejection_fraction'', [Num (- 1), Num 1]),
      (''standardscaler__platelets'', [Num 1, Num (- 1)]),
      (''standardscaler__serum_creatinine'', [Num (- 1), Num 1]),
      (''standardscaler__serum_sodium'', [Num 1, Num (- 1)]),
      (''standardscaler__time'', [Num (- 1), Num 1]),
      (''onehotencoder__anaemia_True'', [Num 0, Num 1]),
      (''onehotencoder__diabetes_True'', [Num 0, Num 1]),
      (''onehotencoder__high_blood_pressure_True'', [Num 1, Num 0]),
      (''onehotencoder__sex_True'', [Num 1, Num 0]),
      (''onehotencoder__smoking_True'', [Num 0, Num 1]),
      (''remainder__DEATH_EVENT'', [Num 1, Num 0])]"

section \<open>Properties of the Evaluator\<close>

lemma sum_list_indicator:
  "distinct cs \<Longrightarrow> (\<Sum>c\<leftarrow>cs. if v = c \<and> P then (1::nat) else 0) = (if v \<in> set cs \<and> P then 1 else 0)"
  by (induction cs) auto

lemma sum_count_distinct:
  "distinct cs \<Longrightarrow>
   (\<Sum>c\<leftarrow>cs. length (filter (\<lambda>x. f x = c \<and> P x) zs)) = length (filter (\<lambda>x. f x \<in> set cs \<and> P x) zs)"
proof (induction zs)
  case Nil
  then show ?case by simp
next
  case (Cons z zs)
  have "(\<Sum>c\<leftarrow>cs. length (filter (\<lambda>x. f x = c \<and> P x) (z # zs)))
        = (\<Sum>c\<leftarrow>cs. (if f z = c \<and> P z then 1 else 0) + length (filter (\<lambda>x. f x = c \<and> P x) zs))"
    by (rule arg_cong [where f = sum_list]) (auto intro!: map_cong)
  also have "\<dots> = (\<Sum>c\<leftarrow>cs. if f z = c \<and> P z then 1 else 0)
                  + (\<Sum>c\<leftarrow>cs. length (filter (\<lambda>x. f x = c \<and> P x) zs))"
    by (simp add: sum_list_addf)
  finally show ?case using Cons by (simp add: sum_list_indicator)
qed

lemma unique_sorted_set [simp]: "set (unique_sorted xs) = set xs"
  by (simp add: unique_sorted_def)

lemma unique_sorted_distinct [simp]: "distinct (unique_sorted xs)"
  by (simp add: unique_sorted_def)

lemma unique_sorted_length: "length (unique_sorted xs) = card (set xs)"
  by (simp add: unique_sorted_def length_remdups_card_conv)

lemma crosstab_row_total:
  assumes "length actual = length predicted"
  shows "sum_list (map (\<lambda>p. count_pair actual predicted a p) (unique_sorted predicted))
         = length (filter (\<lambda>x. fst x = a) (zip actual predicted))"
proof -
  have eq: "\<And>p. (\<lambda>(y, z). y = a \<and> z = p) = (\<lambda>x. snd x = p \<and> fst x = a)"
    by auto
  have "sum_list (map (\<lambda>p. count_pair actual predicted a p) (unique_sorted predicted))
        = (\<Sum>c\<leftarrow>unique_sorted predicted. length (filter (\<lambda>x. snd x = c \<and> fst x = a) (zip actual predicted)))"
    unfolding count_pair_def eq ..
  also have "\<dots> = length (filter (\<lambda>x. snd x \<in> set (unique_sorted predicted) \<and> fst x = a) (zip actual predicted))"
    by (rule sum_count_distinct) simp
  also have "\<dots> = length (filter (\<lambda>x. fst x = a) (zip actual predicted))"
    by (rule arg_cong [where f = length], rule filter_cong) (auto dest: set_zip_rightD)
  finally show ?thesis .
qed

lemma crosstab_total:
  assumes "length actual = length predicted"
  shows "cells_total (crosstab actual predicted rn cn) = length actual"
proof -
  have "cells_total (crosstab actual predicted rn cn)
        = (\<Sum>a\<leftarrow>unique_sorted actual. length (filter (\<lambda>x. fst x = a \<and> True) (zip actual predicted)))"
    unfolding cells_total_def crosstab_def
    by (simp add: comp_def crosstab_row_total [OF assms])
  also have "\<dots> = length (filter (\<lambda>x. fst x \<in> set (unique_sorted actual) \<and> True) (zip actual predicted))"
    by (rule sum_count_distinct) simp
  also have "\<dots> = length (zip actual predicted)"
    by (rule arg_cong [where f = length]) (auto simp: filter_id_conv dest: set_zip_leftD)
  finally show ?thesis using assms by simp
qed

lemma main_Inr_D:
  assumes "model_evaluation_main test pipe seed = Inr out"
  shows "0 \<le> seed" "seed \<le> 2 ^ 32 - 1" "length (pipe seed test) = length test" "test \<noteq> []"
    "confusion_matrix_csv out = crosstab (map DEATH_EVENT test) (pipe seed test) ''Actual'' ''Predicted''"
  using assms
  by (auto simp: model_evaluation_main_def np_random_seed_def Let_def accuracy_score_def
      split: sum.splits if_splits)

text \<open>
  Claim C4. For a test dataset with N rows, the cells of the confusion matrix that a
  completed run writes add up to N: every row is counted in exactly one cell.
\<close>

theorem confusion_matrix_cells_sum:
  assumes "model_evaluation_main test pipe seed = Inr out"
  shows "cells_total (confusion_matrix_csv out) = length test"
  using main_Inr_D [OF assms] crosstab_total [of "map DEATH_EVENT test" "pipe seed test"]
  by simp

lemma filter_split_length:
  "length (filter P xs) = length (filter (\<lambda>x. P x \<and> Q x) xs) + length (filter (\<lambda>x. P x \<and> \<not> Q x) xs)"
  by (induction xs) auto

lemma pred_sum_TP_FP: "pred_sum ys ps = TP ys ps + FP ys ps"
proof -
  have "pred_sum ys ps = length (filter (\<lambda>x. snd x = 1) (zip ys ps))"
    by (simp add: pred_sum_def case_prod_unfold)
  also have "\<dots> = length (filter (\<lambda>x. snd x = 1 \<and> fst x = 1) (zip ys ps))
                  + length (filter (\<lambda>x. snd x = 1 \<and> \<not> fst x = 1) (zip ys ps))"
    by (rule filter_split_length)
  also have "\<dots> = TP ys ps + FP ys ps"
    by (simp add: TP_def FP_def case_prod_unfold conj_commute)
  finally show ?thesis .
qed

lemma true_sum_TP_FN: "true_sum ys ps = TP ys ps + FN ys ps"
proof -
  have "true_sum ys ps = length (filter (\<lambda>x. fst x = 1) (zip ys ps))"
    by (simp add: true_sum_def case_prod_unfold)
  also have "\<dots> = length (filter (\<lambda>x. fst x = 1 \<and> snd x = 1) (zip ys ps))
                  + length (filter (\<lambda>x. fst x = 1 \<and> \<not> snd x = 1) (zip ys ps))"
    by (rule filter_split_length)
  also have "\<dots> = TP ys ps + FN ys ps"
    by (simp add: TP_def FN_def case_prod_unfold)
  finally show ?thesis .
qed

lemma tp_sum_TP: "tp_sum ys ps = TP ys ps"
  by (simp add: tp_sum_def TP_def)

lemma prf_divide_ratio: "prf_divide n d = ratio n d"
  by (simp add: prf_divide_def ratio_def)

lemma ratio_bounds: "n \<le> d \<Longrightarrow> 0 \<le> ratio n d \<and> ratio n d \<le> 1"
  by (simp add: ratio_def divide_le_eq_1)

lemma harmonic_of_quotients:
  fixes T P Q :: rat
  assumes "T > 0" "P > 0" "Q > 0"
  shows "2 * (T / P) * (T / Q) / (T / P + T / Q) = 2 * T / (Q + P)"
proof -
  have s: "T / P + T / Q = T * (Q + P) / (P * Q)"
    using assms by (simp add: field_simps)
  have m: "2 * (T / P) * (T / Q) = 2 * T * T / (P * Q)"
    by simp
  have "2 * T * T / (P * Q) / (T * (Q + P) / (P * Q)) = 2 * T * T / (T * (Q + P))"
    using assms by simp
  also have "\<dots> = 2 * T / (Q + P)"
    using assms by simp
  finally show ?thesis by (simp only: s m)
qed

lemma f1_harmonic:
  "ratio (2 * t) ((t + b) + (t + a)) = harmonic_mean (ratio t (t + a)) (ratio t (t + b))"
proof (cases "t = 0")
  case True
  then show ?thesis by (simp add: ratio_def harmonic_mean_def)
next
  case False
  define T P Q where "T = (of_nat t :: rat)" and "P = (of_nat (t + a) :: rat)"
    and "Q = (of_nat (t + b) :: rat)"
  have pos: "T > 0" "P > 0" "Q > 0" using False by (simp_all add: T_def P_def Q_def)
  then have sum_pos: "T / P + T / Q > 0" by (simp add: add_pos_pos)
  have "ratio (2 * t) ((t + b) + (t + a)) = 2 * T / (Q + P)"
    using False by (simp add: ratio_def T_def P_def Q_def)
  moreover have "harmonic_mean (ratio t (t + a)) (ratio t (t + b))
                 = 2 * (T / P) * (T / Q) / (T / P + T / Q)"
    using False sum_pos unfolding ratio_def harmonic_mean_def T_def P_def Q_def
    by (simp del: of_nat_add)
  ultimately show ?thesis using harmonic_of_quotients [OF pos] by simp
qed

lemma binary_labels_checked:
  assumes "set ys \<subseteq> {0, 1}" "set ps \<subseteq> {0, 1}"
  shows "check_set_wise_labels ys ps = Inr ()"
proof -
  let ?S = "set ys \<union> set ps"
  have sub: "?S \<subseteq> {0, 1}" using assms by auto
  have len: "length (present_labels ys ps) = card ?S"
    by (simp add: present_labels_def unique_sorted_length)
  have "card ?S \<le> card {0, 1 :: int}" by (rule card_mono) (use sub in auto)
  then have le2: "card ?S \<le> 2" by simp
  have "card ?S < 2" if "1 \<notin> ?S"
  proof -
    have "?S \<subseteq> {0}" using sub that by auto
    then have "card ?S \<le> card {0 :: int}" by (intro card_mono) auto
    then show ?thesis by simp
  qed
  then show ?thesis
    using le2 len by (auto simp: check_set_wise_labels_def Let_def present_labels_def)
qed


lemma correct_le: "correct_predictions ys ps \<le> length ys"
proof -
  have "correct_predictions ys ps \<le> length (zip ys ps)"
    unfolding correct_predictions_def by (rule length_filter_le)
  then show ?thesis by simp
qed

text \<open>
  Claim C5. For a non-empty test dataset with binary labels (a valid seed, one binary
  prediction per row) the run completes and writes accuracy = correct / total,
  precision = TP / (TP + FP), which is 0 when nothing is predicted positive,
  recall = TP / (TP + FN) and f1 = the harmonic mean of precision and recall, where a
  quotient with a zero denominator is 0. Each of the four lies between 0 and 1, and f1 is 0
  when precision and recall are both 0.
\<close>

theorem evaluator_scores:
  assumes "0 \<le> seed" and "seed \<le> 2 ^ 32 - 1"
    and "test \<noteq> []"
    and "length (pipe seed test) = length test"
    and "set (map DEATH_EVENT test) \<subseteq> {0, 1}"
    and "set (pipe seed test) \<subseteq> {0, 1}"
  shows "\<exists>out accuracy precision recall f1.
           model_evaluation_main test pipe seed = Inr out
         \<and> test_scores_csv out = [(''accuracy'', accuracy), (''precision'', precision),
                                  (''recall'', recall), (''f1'', f1)]
         \<and> accuracy = of_nat (correct_predictions (map DEATH_EVENT test) (pipe seed test))
                      / of_nat (length test)
         \<and> precision = ratio (TP (map DEATH_EVENT test) (pipe seed test))
                              (TP (map DEATH_EVENT test) (pipe seed test)
                               + FP (map DEATH_EVENT test) (pipe seed test))
         \<and> (1 \<notin> set (pipe seed test) \<longrightarrow> precision = 0)
         \<and> recall = ratio (TP (map DEATH_EVENT test) (pipe seed test))
                           (TP (map DEATH_EVENT test) (pipe seed test)
                            + FN (map DEATH_EVENT test) (pipe seed test))
         \<and> f1 = harmonic_mean precision recall
         \<and> 0 \<le> accuracy \<and> accuracy \<le> 1 \<and> 0 \<le> precision \<and> precision \<le> 1
         \<and> 0 \<le> recall \<and> recall \<le> 1 \<and> 0 \<le> f1 \<and> f1 \<le> 1
         \<and> (precision = 0 \<and> recall = 0 \<longrightarrow> f1 = 0)"
proof -
  let ?ys = "map DEATH_EVENT test" and ?ps = "pipe seed test"
  let ?t = "TP ?ys ?ps" and ?a = "FP ?ys ?ps" and ?b = "FN ?ys ?ps"
  let ?acc = "(of_nat (correct_predictions ?ys ?ps) / of_nat (length test)) :: rat"
  let ?p = "ratio ?t (?t + ?a)" and ?r = "ratio ?t (?t + ?b)"
  let ?f = "harmonic_mean ?p ?r"
  have chk: "check_set_wise_labels ?ys ?ps = Inr ()"
    using assms(5,6) by (rule binary_labels_checked)
  have acc: "accuracy_score ?ys ?ps = Inr ?acc"
    using assms(3) by (simp add: accuracy_score_def correct_predictions_def)
  have p: "precision_score ?ys ?ps = Inr ?p"
    by (simp add: precision_score_def chk prf_divide_ratio tp_sum_TP pred_sum_TP_FP)
  have r: "recall_score ?ys ?ps = Inr ?r"
    by (simp add: recall_score_def chk prf_divide_ratio tp_sum_TP true_sum_TP_FN)
  have f: "f1_score ?ys ?ps = Inr ?f"
    by (simp add: f1_score_def chk prf_divide_ratio tp_sum_TP true_sum_TP_FN pred_sum_TP_FP
        f1_harmonic)
  have run: "model_evaluation_main test pipe seed =
      Inr \<lparr> confusion_matrix_csv = crosstab ?ys ?ps ''Actual'' ''Predicted'',
            test_scores_csv = [(''accuracy'', ?acc), (''precision'', ?p),
                               (''recall'', ?r), (''f1'', ?f)] \<rparr>"
    using assms(1,2,4) by (simp add: model_evaluation_main_def np_random_seed_def Let_def acc p r f)
  have nopos: "?p = 0" if "1 \<notin> set ?ps"
  proof -
    have "filter (\<lambda>(y, z). z = 1) (zip ?ys ?ps) = []"
      using that by (auto simp: filter_empty_conv dest: set_zip_rightD)
    then have "pred_sum ?ys ?ps = 0" by (simp add: pred_sum_def)
    then have "?t + ?a = 0" by (simp add: pred_sum_TP_FP)
    then show ?thesis by (simp add: ratio_def)
  qed
  have bacc: "0 \<le> ?acc \<and> ?acc \<le> 1"
    using correct_le [of ?ys ?ps] assms(3) by (simp add: divide_le_eq_1)
  have bp: "0 \<le> ?p \<and> ?p \<le> 1" by (rule ratio_bounds) simp
  have br: "0 \<le> ?r \<and> ?r \<le> 1" by (rule ratio_bounds) simp
  have "?f = ratio (2 * ?t) ((?t + ?b) + (?t + ?a))" by (simp add: f1_harmonic)
  moreover have "0 \<le> ratio (2 * ?t) ((?t + ?b) + (?t + ?a))
                 \<and> ratio (2 * ?t) ((?t + ?b) + (?t + ?a)) \<le> 1"
    by (rule ratio_bounds) simp
  ultimately have bf: "0 \<le> ?f \<and> ?f \<le> 1" by simp
  have zero: "?f = 0" if "?p = 0 \<and> ?r = 0"
    using that by (simp add: harmonic_mean_def)
  show ?thesis
    using run nopos bacc bp br bf zero by (intro exI [where x = "_"]) auto
qed


lemmas evaluator_defs =
  model_evaluation_main_def labelled_row_def fixed_predictions_def np_random_seed_def
  crosstab_def unique_sorted_def count_pair_def accuracy_score_def precision_score_def
  recall_score_def f1_score_def check_set_wise_labels_def present_labels_def
  tp_sum_def pred_sum_def true_sum_def prf_divide_def Let_def

text \<open>A run on three rows, with seed 7: the cells add up to 3.\<close>

theorem confusion_matrix_cells_sum_witness:
  "\<exists>out. model_evaluation_main (map labelled_row [1, 1, 0]) (fixed_predictions [0, 1, 0]) 7 = Inr out
       \<and> cells_total (confusion_matrix_csv out) = 3"
  using confusion_matrix_cells_sum
    [of "map labelled_row [1, 1, 0]" "fixed_predictions [0, 1, 0]" 7]
  by (simp add: evaluator_defs)

text \<open>
  Claim C6. On actual labels [1,0,1,0] and predicted labels [1,0,0,0] the run yields the
  cells (1,1) = 1, (1,0) = 1, (0,0) = 2, (0,1) = 0, accuracy 0.75, precision 1.0,
  recall 0.5 and f1 = 2/3, which is within 0.001 of 0.667.
\<close>

theorem evaluator_scenario:
  "\<exists>out. model_evaluation_main (map labelled_row [1, 0, 1, 0]) (fixed_predictions [1, 0, 0, 0]) 123
           = Inr out
       \<and> index (confusion_matrix_csv out) = [0, 1]
       \<and> columns (confusion_matrix_csv out) = [0, 1]
       \<and> cell_at (confusion_matrix_csv out) 1 1 = Some 1
       \<and> cell_at (confusion_matrix_csv out) 1 0 = Some 1
       \<and> cell_at (confusion_matrix_csv out) 0 0 = Some 2
       \<and> cell_at (confusion_matrix_csv out) 0 1 = Some 0
       \<and> test_scores_csv out = [(''accuracy'', 75 / 100), (''precision'', 1),
                                (''recall'', 5 / 10), (''f1'', 2 / 3)]
       \<and> \<bar>(2 / 3 :: rat) - 667 / 1000\<bar> < 1 / 1000"
  by (simp add: evaluator_defs cell_at_def)

text \<open>
  Claim C3 as stated fails: with actual labels [1,0] and predictions [0,0] the label 1
  never occurs among the predictions, and the matrix has two rows and one column.
\<close>

theorem confusion_matrix_not_2x2:
  "model_evaluation_main (map labelled_row [1, 0]) (fixed_predictions [0, 0]) 123
     = Inr \<lparr> confusion_matrix_csv =
               \<lparr> index_name = ''Actual'', columns_name = ''Predicted'',
                 index = [0, 1], columns = [0], cells = [[1], [1]] \<rparr>,
             test_scores_csv = [(''accuracy'', 1 / 2), (''precision'', 0),
                                (''recall'', 0), (''f1'', 0)] \<rparr>
   \<and> length (columns \<lparr> index_name = ''Actual'', columns_name = ''Predicted'',
                       index = [0, 1], columns = [0], cells = [[1], [1 :: nat]] \<rparr>) \<noteq> 2"
  by (simp add: evaluator_defs)

lemma card_binary_two:
  assumes "S \<subseteq> {0, 1 :: int}"
  shows "card S \<le> 2" and "card S = 2 \<longleftrightarrow> S = {0, 1}"
proof -
  have fin: "finite {0, 1 :: int}" by simp
  show le: "card S \<le> 2" using card_mono [OF fin assms] by simp
  show "card S = 2 \<longleftrightarrow> S = {0, 1}"
  proof
    assume "card S = 2"
    then have "card {0, 1 :: int} \<le> card S" by simp
    from card_seteq [OF fin assms this] show "S = {0, 1}" .
  next
    assume "S = {0, 1}" then show "card S = 2" by simp
  qed
qed

text \<open>
  Claim C3, amended. The matrix of a completed run has the row axis named Actual and the
  column axis named Predicted, one row per distinct actual label and one column per
  distinct predicted label, in ascending order. With binary labels it has at most two
  rows and two columns; it has two rows exactly when both labels occur among the actuals
  and two columns exactly when both occur among the predictions.
\<close>

theorem confusion_matrix_shape:
  assumes "model_evaluation_main test pipe seed = Inr out"
    and "set (map DEATH_EVENT test) \<subseteq> {0, 1}"
    and "set (pipe seed test) \<subseteq> {0, 1}"
  shows "index_name (confusion_matrix_csv out) = ''Actual''
       \<and> columns_name (confusion_matrix_csv out) = ''Predicted''
       \<and> index (confusion_matrix_csv out) = unique_sorted (map DEATH_EVENT test)
       \<and> columns (confusion_matrix_csv out) = unique_sorted (pipe seed test)
       \<and> length (cells (confusion_matrix_csv out)) = length (index (confusion_matrix_csv out))
       \<and> (\<forall>r \<in> set (cells (confusion_matrix_csv out)).
             length r = length (columns (confusion_matrix_csv out)))
       \<and> length (index (confusion_matrix_csv out)) \<le> 2
       \<and> length (columns (confusion_matrix_csv out)) \<le> 2
       \<and> (length (index (confusion_matrix_csv out)) = 2
            \<longleftrightarrow> set (map DEATH_EVENT test) = {0, 1})
       \<and> (length (columns (confusion_matrix_csv out)) = 2
            \<longleftrightarrow> set (pipe seed test) = {0, 1})"
proof -
  have cm: "confusion_matrix_csv out
            = crosstab (map DEATH_EVENT test) (pipe seed test) ''Actual'' ''Predicted''"
    using main_Inr_D(5) [OF assms(1)] .
  show ?thesis
    unfolding cm
    using card_binary_two [OF assms(2)] card_binary_two [OF assms(3)]
    by (simp add: crosstab_def unique_sorted_length)
qed

text \<open>A run whose predictions are all 1: two rows, one column.\<close>

theorem confusion_matrix_shape_witness:
  "\<exists>out. model_evaluation_main (map labelled_row [0, 1, 1]) (fixed_predictions [1, 1, 1]) 123 = Inr out
       \<and> set (map DEATH_EVENT (map labelled_row [0, 1, 1])) \<subseteq> {0, 1}
       \<and> set ((fixed_predictions [1, 1, 1] :: unit pipeline) 123 (map labelled_row [0, 1, 1])) \<subseteq> {0, 1}
       \<and> length (index (confusion_matrix_csv out)) = 2
       \<and> length (columns (confusion_matrix_csv out)) = 1"
proof -
  have run: "model_evaluation_main (map labelled_row [0, 1, 1]) (fixed_predictions [1, 1, 1]) 123
      = Inr \<lparr> confusion_matrix_csv =
               \<lparr> index_name = ''Actual'', columns_name = ''Predicted'',
                 index = [0, 1], columns = [1], cells = [[1], [2]] \<rparr>,
             test_scores_csv = [(''accuracy'', 2 / 3), (''precision'', 2 / 3),
                                (''recall'', 1), (''f1'', 4 / 5)] \<rparr>"
    by (simp add: evaluator_defs)
  have a: "set (map DEATH_EVENT (map labelled_row [0, 1, 1])) \<subseteq> {0, 1}"
    by (simp add: labelled_row_def)
  have b: "set ((fixed_predictions [1, 1, 1] :: unit pipeline) 123 (map labelled_row [0, 1, 1])) \<subseteq> {0, 1}"
    by (simp add: fixed_predictions_def)
  from confusion_matrix_shape [OF run a b] run a b show ?thesis
    by (simp add: labelled_row_def fixed_predictions_def unique_sorted_def)
qed

text \<open>
  Claim C2 as stated fails: with the seed -1 the seeding raises and nothing is written,
  with the seed 123 the same data and the same deterministic pipeline give both files.
\<close>

theorem seed_changes_outcome:
  "deterministic_pipeline (fixed_predictions [1, 0, 0, 0] :: unit pipeline)
   \<and> model_evaluation_main (map labelled_row [1, 0, 1, 0]) (fixed_predictions [1, 0, 0, 0]) (- 1)
       = Inl SeedOutOfRange
   \<and> model_evaluation_main (map labelled_row [1, 0, 1, 0]) (fixed_predictions [1, 0, 0, 0]) (- 1)
       \<noteq> model_evaluation_main (map labelled_row [1, 0, 1, 0]) (fixed_predictions [1, 0, 0, 0]) 123"
  by (simp add: evaluator_defs deterministic_pipeline_def)

text \<open>
  Claim C2, amended. For a deterministic pipeline, any two seeds from 0 to 2**32 - 1 give
  the same result (the same two files, or the same error); a seed outside that range makes
  the run raise before anything is computed.
\<close>

theorem seed_inert_within_range:
  assumes "deterministic_pipeline pipe"
  shows "(0 \<le> s1 \<and> s1 \<le> 2 ^ 32 - 1 \<and> 0 \<le> s2 \<and> s2 \<le> 2 ^ 32 - 1
            \<longrightarrow> model_evaluation_main test pipe s1 = model_evaluation_main test pipe s2)
       \<and> (s1 < 0 \<or> 2 ^ 32 - 1 < s1 \<longrightarrow> model_evaluation_main test pipe s1 = Inl SeedOutOfRange)"
proof -
  have same: "pipe s1 test = pipe s2 test"
    using assms by (simp add: deterministic_pipeline_def)
  show ?thesis
    by (auto simp: model_evaluation_main_def np_random_seed_def same)
qed

text \<open>Seeds 123 and 7 on two rows give the same files.\<close>

theorem seed_inert_within_range_witness:
  "deterministic_pipeline (fixed_predictions [1, 0] :: unit pipeline)
   \<and> model_evaluation_main (map labelled_row [1, 1]) (fixed_predictions [1, 0]) 123
       = model_evaluation_main (map labelled_row [1, 1]) (fixed_predictions [1, 0]) 7
   \<and> model_evaluation_main (map labelled_row [1, 1]) (fixed_predictions [1, 0]) 7
       = Inr \<lparr> confusion_matrix_csv =
               \<lparr> index_name = ''Actual'', columns_name = ''Predicted'',
                 index = [1], columns = [0, 1], cells = [[1, 1]] \<rparr>,
             test_scores_csv = [(''accuracy'', 1 / 2), (''precision'', 1),
                                (''recall'', 1 / 2), (''f1'', 2 / 3)] \<rparr>"
proof -
  have d: "deterministic_pipeline (fixed_predictions [1, 0] :: unit pipeline)"
    by (simp add: deterministic_pipeline_def fixed_predictions_def)
  from seed_inert_within_range [OF d, of 123 7 "map labelled_row [1, 1]"]
  have "model_evaluation_main (map labelled_row [1, 1]) (fixed_predictions [1, 0]) 123
       = model_evaluation_main (map labelled_row [1, 1]) (fixed_predictions [1, 0]) 7"
    by simp
  moreover have "model_evaluation_main (map labelled_row [1, 1]) (fixed_predictions [1, 0]) 7
       = Inr \<lparr> confusion_matrix_csv =
               \<lparr> index_name = ''Actual'', columns_name = ''Predicted'',
                 index = [1], columns = [0, 1], cells = [[1, 1]] \<rparr>,
             test_scores_csv = [(''accuracy'', 1 / 2), (''precision'', 1),
                                (''recall'', 1 / 2), (''f1'', 2 / 3)] \<rparr>"
    by (simp add: evaluator_defs)
  ultimately show ?thesis using d by simp
qed

text \<open>Three rows, nothing predicted positive: precision, recall and f1 are 0.\<close>

theorem evaluator_scores_witness:
  "\<exists>out. model_evaluation_main (map labelled_row [1, 0, 0]) (fixed_predictions [0, 0, 0]) 123 = Inr out
       \<and> test_scores_csv out = [(''accuracy'', 2 / 3), (''precision'', 0),
                                (''recall'', 0), (''f1'', 0)]"
proof -
  have "TP [1, 0, 0] [0, 0, 0] = 0" "FP [1, 0, 0] [0, 0, 0] = 0" "FN [1, 0, 0] [0, 0, 0] = 1"
    "correct_predictions [1, 0, 0] [0, 0, 0] = 2"
    by (simp_all add: TP_def FP_def FN_def correct_predictions_def)
  then show ?thesis
    using evaluator_scores [of 123 "map labelled_row [1, 0, 0]" "fixed_predictions [0, 0, 0]"]
    by (auto simp: labelled_row_def fixed_predictions_def ratio_def harmonic_mean_def)
qed

section \<open>Properties of the Correlation Reporter\<close>

lemma collect_Inr_iff: "collect xs = Inr vs \<longleftrightarrow> xs = map Inr vs"
proof (induction xs arbitrary: vs)
  case Nil
  then show ?case by auto
next
  case (Cons x xs)
  show ?case
  proof (cases x)
    case (Inl e)
    then show ?thesis by (cases vs) auto
  next
    case (Inr v)
    show ?thesis
    proof (cases "collect xs")
      case (Inl e)
      with Cons.IH [of "tl vs"] Inr show ?thesis by (cases vs) auto
    next
      case r: (Inr ws)
      with Cons.IH [of ws] have "xs = map Inr ws" by simp
      with r Inr Cons.IH show ?thesis by (cases vs) auto
    qed
  qed
qed

lemma covxy_commute: "covxy xs ys = covxy ys xs"
proof -
  have "zip ys xs = map (\<lambda>(x, y). (y, x)) (zip xs ys)"
    by (rule zip_commute)
  then show ?thesis
    by (simp add: covxy_def comp_def case_prod_unfold mult.commute)
qed

lemma pearson_commute: "pearson xs ys = pearson ys xs"
  by (simp add: pearson_def covxy_commute [of xs ys] mult.commute [of "ssqdm xs"])

lemma covxy_self: "covxy xs xs = ssqdm xs"
  by (simp add: covxy_def ssqdm_def zip_same_conv_map comp_def power2_eq_square)

lemma ssqdm_nonneg: "0 \<le> ssqdm xs"
  unfolding ssqdm_def by (rule sum_list_nonneg) auto

lemma pearson_self: "ssqdm xs \<noteq> 0 \<Longrightarrow> pearson xs xs = Some 1"
  using ssqdm_nonneg [of xs] by (simp add: pearson_def covxy_self)

lemma column_var_ssqdm: "column_var xs \<noteq> 0 \<Longrightarrow> ssqdm xs \<noteq> 0"
  by (auto simp: column_var_def ssqdm_def)

lemma non_degenerate_numeric:
  assumes "non_degenerate df"
  shows "\<exists>cols. map (\<lambda>(name, col). float_cells name col) df = map Inr cols
              \<and> list_all (\<lambda>xs. column_var xs \<noteq> 0) cols"
  using assms
proof (induction df)
  case Nil
  then show ?case by simp
next
  case (Cons a df)
  then obtain cols where cols: "map (\<lambda>(name, col). float_cells name col) df = map Inr cols"
      "list_all (\<lambda>xs. column_var xs \<noteq> 0) cols"
    by (auto simp: non_degenerate_def)
  obtain name col where a: "a = (name, col)" by (cases a)
  from Cons.prems obtain xs where xs: "those (map to_float col) = Some xs" "column_var xs \<noteq> 0"
    by (auto simp: non_degenerate_def a split: option.splits)
  have "map (\<lambda>(name, col). float_cells name col) (a # df) = map Inr (xs # cols)"
    using cols xs by (simp add: a float_cells_def)
  moreover have "list_all (\<lambda>xs. column_var xs \<noteq> 0) (xs # cols)"
    using cols xs by simp
  ultimately show ?case by blast
qed

text \<open>
  Claim C7. For a non-degenerate numeric frame (every column numeric with nonzero
  variance) the correlation matrix is computed, its (i,j) entry equals its (j,i) entry,
  and every diagonal entry is 1, hence within 1e-9 of 1.
\<close>

theorem correlation_matrix_symmetric_unit_diagonal:
  assumes "non_degenerate df" and "i < length df" and "j < length df"
  shows "\<exists>m. corr df = Inr m
           \<and> feature_names m = map fst df
           \<and> coefficients m ! i ! j = coefficients m ! j ! i
           \<and> coefficients m ! i ! i = Some 1
           \<and> (\<exists>r. coefficients m ! i ! i = Some r \<and> \<bar>r - 1\<bar> \<le> 1 / 10 ^ 9)"
proof -
  from non_degenerate_numeric [OF assms(1)] obtain cols where
    cols: "map (\<lambda>(name, col). float_cells name col) df = map Inr cols"
    and nd: "list_all (\<lambda>xs. column_var xs \<noteq> 0) cols"
    by blast
  have len: "length cols = length df"
    using arg_cong [OF cols, of length] by simp
  let ?m = "\<lparr> feature_names = map fst df,
              coefficients = map (\<lambda>xs. map (\<lambda>ys. pearson xs ys) cols) cols \<rparr>"
  have run: "corr df = Inr ?m"
    using cols by (simp add: corr_def collect_Inr_iff [THEN iffD2])
  have ij: "i < length cols" "j < length cols" using assms len by simp_all
  have sym: "coefficients ?m ! i ! j = coefficients ?m ! j ! i"
    using ij by (simp add: pearson_commute)
  have "column_var (cols ! i) \<noteq> 0"
    using nd ij by (simp add: list_all_length)
  then have diag: "coefficients ?m ! i ! i = Some 1"
    using ij by (simp add: pearson_self column_var_ssqdm)
  show ?thesis using run sym diag by (intro exI [of _ ?m]) simp
qed

lemma astype_bool_columns_present:
  assumes "set cols \<subseteq> fst ` set df"
  shows "astype_bool_columns df cols = Inr (cast_frame cols df)"
proof -
  have "filter (\<lambda>c. c \<notin> set (map fst df)) cols = []"
    using assms by (auto simp: filter_empty_conv)
  moreover have "map (\<lambda>(name, col). if name \<in> set cols then (name, map astype_bool col)
                                      else (name, col)) df = cast_frame cols df"
    by (auto simp: cast_frame_def)
  ultimately show ?thesis by (simp add: astype_bool_columns_def)
qed

lemma astype_bool_columns_Inr:
  assumes "astype_bool_columns df cols = Inr df'"
  shows "df' = cast_frame cols df"
proof -
  have "map (\<lambda>(name, col). if name \<in> set cols then (name, map astype_bool col)
                             else (name, col)) df = cast_frame cols df"
    by (auto simp: cast_frame_def)
  with assms show ?thesis
    by (auto simp: astype_bool_columns_def split: list.splits)
qed

lemma astype_bool_is_Bool: "\<exists>b. astype_bool x = Bool b"
  by (cases x) auto

text \<open>
  Claim C10. When the binary columns exist in both frames, after \<open>preprocess_data\<close> the
  caller's two frames are the input frames with the binary columns cast to boolean: the
  column names and order are kept, every other column is unchanged, and every cell of a
  binary column is a boolean.
\<close>

theorem preprocess_data_casts_in_place:
  assumes "set binary_columns \<subseteq> fst ` set train_df"
    and "set binary_columns \<subseteq> fst ` set test_df"
  shows "fst (preprocess_data train_df test_df numeric_columns binary_columns)
           = (cast_frame binary_columns train_df, cast_frame binary_columns test_df)
       \<and> map fst (cast_frame binary_columns train_df) = map fst train_df
       \<and> (\<forall>name col. (name, col) \<in> set train_df \<and> name \<notin> set binary_columns
             \<longrightarrow> (name, col) \<in> set (cast_frame binary_columns train_df))
       \<and> (\<forall>name col x. (name, col) \<in> set (cast_frame binary_columns train_df)
             \<and> name \<in> set binary_columns \<and> x \<in> set col \<longrightarrow> (\<exists>b. x = Bool b))"
proof -
  have "fst (preprocess_data train_df test_df numeric_columns binary_columns)
           = (cast_frame binary_columns train_df, cast_frame binary_columns test_df)"
    by (simp add: preprocess_data_def astype_bool_columns_present [OF assms(1)]
        astype_bool_columns_present [OF assms(2)])
  moreover have "map fst (cast_frame binary_columns train_df) = map fst train_df"
    by (simp add: cast_frame_def comp_def case_prod_unfold)
  moreover have "\<forall>name col. (name, col) \<in> set train_df \<and> name \<notin> set binary_columns
             \<longrightarrow> (name, col) \<in> set (cast_frame binary_columns train_df)"
    by (force simp: cast_frame_def)
  moreover have "\<forall>name col x. (name, col) \<in> set (cast_frame binary_columns train_df)
             \<and> name \<in> set binary_columns \<and> x \<in> set col \<longrightarrow> (\<exists>b. x = Bool b)"
    using astype_bool_is_Bool by (auto simp: cast_frame_def)
  ultimately show ?thesis by blast
qed

lemma map_of_cast_frame:
  "c \<notin> set cols \<Longrightarrow> map_of (cast_frame cols df) c = map_of df c"
  by (induction df) (auto simp: cast_frame_def)

lemma float_column_cast_frame:
  "c \<notin> set cols \<Longrightarrow> float_column (cast_frame cols df) c = float_column df c"
  by (simp add: float_column_def map_of_cast_frame)

lemma map_of_scaled:
  assumes "map (fit_scaler tr) nums = map Inr scs"
    and "map (scale_column te) scs = map Inr scaled"
    and "c \<in> set nums"
  shows "\<exists>xs ys. float_column tr c = Inr xs \<and> float_column te c = Inr ys
           \<and> map_of (zip (map (\<lambda>(c, _). pre @ c) scs) scaled @ rest) (pre @ c)
               = Some (map (\<lambda>y. Num (StandardScaler_transform (StandardScaler_fit xs) y)) ys)"
  using assms
proof (induction nums arbitrary: scs scaled)
  case Nil
  then show ?case by simp
next
  case (Cons n ns)
  from Cons.prems(1) obtain s ss where scs: "scs = s # ss"
    and s: "fit_scaler tr n = Inr s" and ss: "map (fit_scaler tr) ns = map Inr ss"
    by (cases scs) auto
  from Cons.prems(2) scs obtain col cols where scaled: "scaled = col # cols"
    and col: "scale_column te s = Inr col" and cols: "map (scale_column te) ss = map Inr cols"
    by (cases scaled) auto
  from s obtain xs where xs: "float_column tr n = Inr xs" "s = (n, StandardScaler_fit xs)"
    by (auto simp: fit_scaler_def split: sum.splits)
  from col xs obtain ys where ys: "float_column te n = Inr ys"
      "col = map (\<lambda>y. Num (StandardScaler_transform (StandardScaler_fit xs) y)) ys"
    by (auto simp: scale_column_def split: sum.splits)
  show ?case
  proof (cases "n = c")
    case True
    then show ?thesis using xs ys by (simp add: scs scaled)
  next
    case False
    then have "c \<in> set ns" using Cons.prems(3) by simp
    from Cons.IH [OF ss cols this] False show ?thesis
      by (simp add: scs scaled xs)
  qed
qed

text \<open>
  Claim C9. When \<open>preprocess_data\<close> returns, the standardized column of a numeric column
  \<open>c\<close> of the test frame holds, for each test value y, (y - mean) / scale, where mean and
  scale are the mean and the standard deviation of the training column \<open>c\<close> (scale 1 when
  the deviation is 0). The training frame is transformed with the same parameters. No
  statistic of the test data occurs.
\<close>

theorem test_scaled_from_train_statistics:
  assumes "snd (preprocess_data train_df test_df numeric_columns binary_columns)
             = Inr (train_scaled, test_scaled, column_names)"
    and "c \<in> set numeric_columns" and "c \<notin> set binary_columns"
  shows "\<exists>xs ys. float_column train_df c = Inr xs \<and> float_column test_df c = Inr ys
           \<and> map_of test_scaled (''standardscaler__'' @ c)
               = Some (map (\<lambda>y. Num ((y - column_mean xs)
                                       / (if sqrt (column_var xs) = 0 then 1
                                          else sqrt (column_var xs)))) ys)
           \<and> map_of train_scaled (''standardscaler__'' @ c)
               = Some (map (\<lambda>x. Num ((x - column_mean xs)
                                       / (if sqrt (column_var xs) = 0 then 1
                                          else sqrt (column_var xs)))) xs)"
proof -
  let ?tr = "cast_frame binary_columns train_df" and ?te = "cast_frame binary_columns test_df"
  from assms(1) obtain train' test' where
    c1: "astype_bool_columns train_df binary_columns = Inr train'" and
    c2: "astype_bool_columns test_df binary_columns = Inr test'"
    by (auto simp: preprocess_data_def split: sum.splits)
  have tr: "train' = ?tr" and te: "test' = ?te"
    using c1 c2 by (simp_all add: astype_bool_columns_Inr)
  from assms(1) c1 c2 obtain st a b where
    fit: "fit ?tr numeric_columns binary_columns = Inr st" and
    ta: "transform st ?tr = Inr a" and tb: "transform st ?te = Inr b" and
    out: "train_scaled = zip (get_feature_names_out st) a"
         "test_scaled = zip (get_feature_names_out st) b"
    by (auto simp: preprocess_data_def tr te Let_def split: sum.splits)
  from fit have
    scs: "map (fit_scaler ?tr) numeric_columns = map Inr (scalers st)"
    by (auto simp: fit_def collect_Inr_iff split: if_splits sum.splits)
  from ta obtain sa ra where
    sa: "map (scale_column ?tr) (scalers st) = map Inr sa" and a: "a = sa @ ra"
    by (auto simp: transform_def collect_Inr_iff split: if_splits sum.splits)
  from tb obtain sb rb where
    sb: "map (scale_column ?te) (scalers st) = map Inr sb" and b: "b = sb @ rb"
    by (auto simp: transform_def collect_Inr_iff split: if_splits sum.splits)
  have la: "length sa = length (scalers st)" using arg_cong [OF sa, of length] by simp
  have lb: "length sb = length (scalers st)" using arg_cong [OF sb, of length] by simp
  obtain names_rest where names: "get_feature_names_out st
      = map (\<lambda>(c, _). ''standardscaler__'' @ c) (scalers st) @ names_rest"
    by (simp add: get_feature_names_out_def)
  have za: "train_scaled = zip (map (\<lambda>(c, _). ''standardscaler__'' @ c) (scalers st)) sa
                           @ zip names_rest ra"
    using la by (simp add: out names a)
  have zb: "test_scaled = zip (map (\<lambda>(c, _). ''standardscaler__'' @ c) (scalers st)) sb
                          @ zip names_rest rb"
    using lb by (simp add: out names b)
  from map_of_scaled [OF scs sb assms(2), of "''standardscaler__''" "zip names_rest rb"]
  obtain xs ys where 1: "float_column ?tr c = Inr xs" "float_column ?te c = Inr ys"
    "map_of test_scaled (''standardscaler__'' @ c)
       = Some (map (\<lambda>y. Num (StandardScaler_transform (StandardScaler_fit xs) y)) ys)"
    unfolding zb by blast
  from map_of_scaled [OF scs sa assms(2), of "''standardscaler__''" "zip names_rest ra"] 1(1)
  have 2: "map_of train_scaled (''standardscaler__'' @ c)
       = Some (map (\<lambda>y. Num (StandardScaler_transform (StandardScaler_fit xs) y)) xs)"
    unfolding za by auto
  have f: "StandardScaler_transform (StandardScaler_fit xs) y
           = (y - column_mean xs) / (if sqrt (column_var xs) = 0 then 1 else sqrt (column_var xs))"
    for y
    by (simp add: StandardScaler_transform_def StandardScaler_fit_def Let_def)
  show ?thesis
    using 1 2 assms(3) by (simp add: float_column_cast_frame f)
qed

lemmas preprocess_defs =
  preprocess_data_def astype_bool_columns_def fit_def transform_def fit_scaler_def
  fit_encoder_def scale_column_def encode_column_def passthrough_column_def
  float_column_def bool_column_def float_cells_def n_rows_def
  StandardScaler_fit_def StandardScaler_transform_def column_mean_def column_var_def
  OneHotEncoder_fit_def OneHotEncoder_transform_def kept_categories_def
  get_feature_names_out_def str_bool_def Let_def

lemma small_run:
  "preprocess_data [(''sex'', [Num 1, Num 0]), (''age'', [Num 60, Num 62])]
                   [(''sex'', [Num 0]), (''age'', [Num 65])] [''age''] [''sex'']
   = (([(''sex'', [Bool True, Bool False]), (''age'', [Num 60, Num 62])],
       [(''sex'', [Bool False]), (''age'', [Num 65])]),
      Inr ([(''standardscaler__age'', [Num (- 1), Num 1]),
            (''onehotencoder__sex_True'', [Num 1, Num 0])],
           [(''standardscaler__age'', [Num 4]),
            (''onehotencoder__sex_True'', [Num 0])],
           [''standardscaler__age'', ''onehotencoder__sex_True'']))"
  by (simp add: preprocess_defs)

text \<open>A frame whose \<open>sex\<close> column holds 1 and 0 holds True and False after the call.\<close>

theorem preprocess_data_casts_in_place_witness:
  "fst (preprocess_data [(''sex'', [Num 1, Num 0]), (''age'', [Num 60, Num 62])]
                        [(''sex'', [Num 0]), (''age'', [Num 65])] [''age''] [''sex''])
     = ([(''sex'', [Bool True, Bool False]), (''age'', [Num 60, Num 62])],
        [(''sex'', [Bool False]), (''age'', [Num 65])])
   \<and> [(''sex'', [Bool True, Bool False]), (''age'', [Num 60, Num 62])]
       \<noteq> [(''sex'', [Num 1, Num 0]), (''age'', [Num 60, Num 62])]"
  using preprocess_data_casts_in_place
    [of "[''sex'']" "[(''sex'', [Num 1, Num 0]), (''age'', [Num 60, Num 62])]"
        "[(''sex'', [Num 0]), (''age'', [Num 65])]" "[''age'']"]
  by (simp add: cast_frame_def)

text \<open>Training ages 60 and 62 (mean 61, deviation 1) send the test age 65 to 4.\<close>

theorem test_scaled_from_train_statistics_witness:
  "\<exists>train_scaled test_scaled column_names.
     snd (preprocess_data [(''sex'', [Num 1, Num 0]), (''age'', [Num 60, Num 62])]
                          [(''sex'', [Num 0]), (''age'', [Num 65])] [''age''] [''sex''])
       = Inr (train_scaled, test_scaled, column_names)
     \<and> map_of test_scaled ''standardscaler__age'' = Some [Num 4]
     \<and> map_of train_scaled ''standardscaler__age'' = Some [Num (- 1), Num 1]"
proof -
  let ?train_scaled = "[(''standardscaler__age'', [Num (- 1), Num 1]),
            (''onehotencoder__sex_True'', [Num 1, Num 0])]"
  let ?test_scaled = "[(''standardscaler__age'', [Num 4]),
            (''onehotencoder__sex_True'', [Num 0])]"
  have run: "snd (preprocess_data [(''sex'', [Num 1, Num 0]), (''age'', [Num 60, Num 62])]
                          [(''sex'', [Num 0]), (''age'', [Num 65])] [''age''] [''sex''])
       = Inr (?train_scaled, ?test_scaled, [''standardscaler__age'', ''onehotencoder__sex_True''])"
    by (simp add: small_run)
  from test_scaled_from_train_statistics [OF run, of "''age''"]
  have "map_of ?test_scaled (''standardscaler__'' @ ''age'') = Some [Num 4]"
    by (auto simp: float_column_def float_cells_def column_mean_def column_var_def)
  with run show ?thesis by simp
qed

text \<open>Two columns of two rows: the matrix is symmetric with a unit diagonal.\<close>

theorem correlation_matrix_symmetric_unit_diagonal_witness:
  "non_degenerate [(''a'', [Num 1, Num 3]), (''b'', [Num 5, Num 4])]
   \<and> (\<exists>m. corr [(''a'', [Num 1, Num 3]), (''b'', [Num 5, Num 4])] = Inr m
          \<and> coefficients m ! 0 ! 1 = coefficients m ! 1 ! 0
          \<and> coefficients m ! 1 ! 1 = Some 1)"
proof -
  have nd: "non_degenerate [(''a'', [Num 1, Num 3]), (''b'', [Num 5, Num 4])]"
    by (simp add: non_degenerate_def column_var_def column_mean_def)
  from correlation_matrix_symmetric_unit_diagonal [OF nd, of 1 0]
       correlation_matrix_symmetric_unit_diagonal [OF nd, of 0 1] nd
  show ?thesis by auto
qed

lemma collinear_preprocessed:
  "snd (preprocess_data collinear_frame collinear_frame
         [''age'', ''creatinine_phosphokinase'', ''ejection_fraction'',
          ''platelets'', ''serum_creatinine'', ''serum_sodium'', ''time'']
         [''anaemia'', ''diabetes'', ''high_blood_pressure'', ''sex'', ''smoking''])
   = Inr (collinear_scaled, collinear_scaled, map fst collinear_scaled)"
  by (simp add: preprocess_defs collinear_frame_def collinear_scaled_def)


lemma corr_of_numeric:
  assumes "map (\<lambda>(name, col). float_cells name col) df = map Inr cols"
  shows "corr df = Inr \<lparr> feature_names = map fst df,
                         coefficients = map (\<lambda>xs. map (\<lambda>ys. pearson xs ys) cols) cols \<rparr>"
  using assms by (simp add: corr_def collect_Inr_iff [THEN iffD2])

lemma plot_without_output_file:
  assumes "corr df = Inr m"
  shows "\<exists>plotted. plot_correlation_matrix path_exists df None = Inr plotted
                  \<and> echoed plotted = []"
  using assms by (simp add: plot_correlation_matrix_def)

lemma pair_in_upper_triangle:
  assumes "i < j" and "j < n"
  shows "(i, j) \<in> set (concat (map (\<lambda>j. map (\<lambda>i. (i, j)) [0 ..< j]) [0 ..< n]))"
proof -
  have "(i, j) \<in> (\<lambda>xa. (xa, j)) ` {0 ..< j}" using assms(1) by simp
  moreover have "j \<in> {0 ..< n}" using assms(2) by simp
  ultimately show ?thesis by (simp del: atLeastLessThan_iff) blast
qed

lemma validate_raises:
  assumes "corr df = Inr m" and "i < j" and "j < length (feature_names m)"
    and "coefficients m ! i ! j = Some r" and "\<bar>r\<bar> > threshold"
  shows "validate_feature_correlations df threshold
         = Inl (ValueError ''Feature-feature correlation exceeds the maximum acceptable threshold.'')"
proof -
  have "(i, j) \<in> set (pairs_above_threshold m threshold)"
    unfolding pairs_above_threshold_def
    using pair_in_upper_triangle [OF assms(2,3)] assms(4,5) by simp
  then have "pairs_above_threshold m threshold \<noteq> []" by auto
  then have "\<not> length (pairs_above_threshold m threshold) \<le> 0" by simp
  then show ?thesis
    by (simp add: validate_feature_correlations_def passed_conditions_def assms(1))
qed

lemma collinear_columns:
  "map (\<lambda>(name, col). float_cells name col) collinear_scaled
   = map Inr [[- 1, 1], [1, - 1], [- 1, 1], [1, - 1], [- 1, 1], [1, - 1], [- 1, 1],
              [0, 1], [0, 1], [1, 0], [1, 0], [0, 1], [1, 0]]"
  by (simp add: collinear_scaled_def float_cells_def)

lemma pearson_age_time: "pearson [- 1, 1] [- 1, 1] = Some 1"
  by (simp add: pearson_def ssqdm_def covxy_def column_mean_def)

text \<open>
  Claim C1. The claim asks that a feature pair above the threshold makes the run fail with
  a message on standard error and exit status 1. On the collinear dataset the pair
  (\<open>age\<close>, \<open>time\<close>) has correlation 1 > 0.92, so \<open>validate_feature_correlations\<close> raises
  on the transformed training data; \<open>main\<close> does not call it and reports that all
  checks passed, with nothing on standard error and exit status 0.
\<close>

theorem correlation_policy_not_enforced:
  "validate_feature_correlations collinear_scaled (92 / 100)
     = Inl (ValueError ''Feature-feature correlation exceeds the maximum acceptable threshold.'')
   \<and> correlation_analysis_main path_exists collinear_frame collinear_frame None (92 / 100)
     = Inr \<lparr> stdout = [''All feature-feature correlation checks passed.''],
             stderr = [], exit_status = 0 \<rparr>"
proof -
  define cols :: "real list list" where
    "cols = [[- 1, 1], [1, - 1], [- 1, 1], [1, - 1], [- 1, 1], [1, - 1], [- 1, 1],
             [0, 1], [0, 1], [1, 0], [1, 0], [0, 1], [1, 0]]"
  define m where "m = \<lparr> feature_names = map fst collinear_scaled,
                         coefficients = map (\<lambda>xs. map (\<lambda>ys. pearson xs ys) cols) cols \<rparr>"
  have run: "corr collinear_scaled = Inr m"
    unfolding m_def cols_def by (rule corr_of_numeric) (rule collinear_columns)
  have len: "length cols = 13" by (simp add: cols_def)
  have n: "6 < length (feature_names m)"
    by (simp add: m_def collinear_scaled_def)
  have "coefficients m ! 0 ! 6 = pearson (cols ! 0) (cols ! 6)"
    using len by (simp add: m_def)
  also have "\<dots> = Some 1"
    by (simp add: cols_def pearson_age_time)
  finally have c: "coefficients m ! 0 ! 6 = Some 1" .
  have v: "validate_feature_correlations collinear_scaled (92 / 100)
     = Inl (ValueError ''Feature-feature correlation exceeds the maximum acceptable threshold.'')"
    by (rule validate_raises [OF run _ n c]) simp_all
  from plot_without_output_file [OF run, of path_exists]
  have "correlation_analysis_main path_exists collinear_frame collinear_frame None (92 / 100)
     = Inr \<lparr> stdout = [''All feature-feature correlation checks passed.''],
             stderr = [], exit_status = 0 \<rparr>"
    by (auto simp: correlation_analysis_main_def collinear_preprocessed)
  with v show ?thesis by simp
qed

text \<open>Every completed run ends with the same report, whatever the data and the threshold.\<close>

lemma correlation_analysis_main_outcome:
  assumes "correlation_analysis_main path_exists train_df test_df output_file threshold = Inr res"
  shows "exit_status res = 0 \<and> stderr res = []
       \<and> last (stdout res) = ''All feature-feature correlation checks passed.''"
  using assms
  by (auto simp: correlation_analysis_main_def Let_def split: sum.splits prod.splits)

lemma astype_bool_truthy: "astype_bool x = Bool (truthy x)"
  by (cases x) auto

lemma n_rows_cast_frame: "n_rows (cast_frame cols df) = n_rows df"
  by (cases df) (auto simp: n_rows_def cast_frame_def)

lemma map_fst_cast_frame: "map fst (cast_frame cols df) = map fst df"
  by (simp add: cast_frame_def comp_def case_prod_unfold)

lemma those_bools: "those (map to_bool (map astype_bool col)) = Some (map truthy col)"
  by (induction col) (auto simp: astype_bool_truthy)

lemma map_of_cast_frame_in:
  "c \<in> set cols \<Longrightarrow> map_of (cast_frame cols df) c = map_option (map astype_bool) (map_of df c)"
  by (induction df) (auto simp: cast_frame_def)

lemma bool_column_cast_frame:
  assumes "c \<in> set cols" and "map_of df c = Some col"
  shows "bool_column (cast_frame cols df) c = Inr (map truthy col)"
  using assms those_bools [of col] by (simp add: bool_column_def map_of_cast_frame_in)

lemma collect_map_Inr:
  assumes "\<And>x. x \<in> set xs \<Longrightarrow> f x = Inr (g x)"
  shows "collect (map f xs) = Inr (map g xs)"
proof -
  have "map f xs = map Inr (map g xs)" using assms by simp
  then show ?thesis by (simp only: collect_Inr_iff)
qed

lemma kept_subset_fit:
  "set (kept_categories (OneHotEncoder_fit d col)) \<subseteq> set (categories (OneHotEncoder_fit d col))"
proof -
  have "set (take i xs @ drop (Suc i) xs) \<subseteq> set xs" for i and xs :: "'a list"
    using set_take_subset [of i xs] set_drop_subset [of "Suc i" xs] by auto
  then show ?thesis
    by (auto simp: kept_categories_def split: option.splits)
qed

lemma transform_value_code:
  assumes "set (kept_categories st) \<subseteq> set (categories st)"
  shows "OneHotEncoder_transform IgnoreUnknown st v
         = Inr (map (\<lambda>k. if k = v then 1 else 0) (kept_categories st))"
proof (cases "v \<in> set (categories st)")
  case True
  then show ?thesis by (simp add: OneHotEncoder_transform_def)
next
  case False
  then have "\<forall>k \<in> set (kept_categories st). k \<noteq> v" using assms by auto
  then have "map (\<lambda>k. if k = v then 1 else (0::int)) (kept_categories st)
             = replicate (length (kept_categories st)) 0"
    by (simp add: map_replicate_const [symmetric])
  with False show ?thesis by (simp add: OneHotEncoder_transform_def)
qed

lemma encode_column_eq:
  assumes "bool_column df c = Inr vs"
    and "set (kept_categories st) \<subseteq> set (categories st)"
  shows "encode_column df (c, st)
         = Inr (map (\<lambda>k. map (\<lambda>v. Num (if k = v then 1 else 0)) vs) (kept_categories st))"
proof -
  let ?K = "kept_categories st"
  have enc: "collect (map (OneHotEncoder_transform IgnoreUnknown st) vs)
             = Inr (map (\<lambda>v. map (\<lambda>k. if k = v then 1 else 0) ?K) vs)"
    by (rule collect_map_Inr) (rule transform_value_code [OF assms(2)])
  have "map (\<lambda>i. map (\<lambda>r. Num (of_int (r ! i))) (map (\<lambda>v. map (\<lambda>k. if k = v then 1 else 0) ?K) vs))
            [0 ..< length ?K]
        = map (\<lambda>k. map (\<lambda>v. Num (if k = v then 1 else 0)) vs) ?K"
    by (rule nth_equalityI) (auto simp: comp_def)
  then show ?thesis
    by (simp add: encode_column_def assms(1) enc)
qed

lemma zip_map_same: "zip (map f xs) (map g xs) = map (\<lambda>x. (f x, g x)) xs"
  by (induction xs) auto

lemma zip_concat_blocks:
  assumes "\<And>c. c \<in> set bins \<Longrightarrow> length (f c) = length (g c)"
  shows "zip (concat (map f bins)) (concat (map g bins)) = concat (map (\<lambda>c. zip (f c) (g c)) bins)"
  using assms by (induction bins) auto

lemma concat_single_block:
  assumes "distinct bins" and "c \<in> set bins"
  shows "concat (map (\<lambda>c'. if c' = c then X else []) bins) = X"
  using assms by (induction bins) auto

lemma concat_no_block:
  assumes "c \<notin> set bins"
  shows "concat (map (\<lambda>c'. if c' = c then X else []) bins) = []"
  using assms by (induction bins) auto

lemma one_hot_name_inject:
  assumes "c' @ ''_'' @ str_bool k' = c @ ''_'' @ str_bool k"
  shows "c' = c \<and> k' = k"
proof -
  have tf: "a @ ''_True'' \<noteq> b @ ''_False''" for a b :: string
  proof
    assume "a @ ''_True'' = b @ ''_False''"
    then have "rev (a @ ''_True'') ! 1 = rev (b @ ''_False'') ! 1" by simp
    then show False by simp
  qed
  show ?thesis
  proof (cases k; cases k')
    assume "k" "k'" with assms show ?thesis by (simp add: str_bool_def)
  next
    assume "\<not> k" "\<not> k'" with assms show ?thesis by (simp add: str_bool_def)
  next
    assume "k" "\<not> k'" with assms tf [of c c'] show ?thesis by (simp add: str_bool_def)
  next
    assume "\<not> k" "k'" with assms tf [of c' c] show ?thesis by (simp add: str_bool_def)
  qed
qed

lemma fit_succeeds:
  assumes rows: "n_rows tr \<noteq> 0"
    and nums: "\<And>n. n \<in> set nums \<Longrightarrow> \<exists>xs. float_column tr n = Inr xs"
    and bools: "\<And>c. c \<in> set bins \<Longrightarrow> bool_column tr c = Inr (B c)"
  shows "\<exists>scs. fit tr nums bins
           = Inr \<lparr> scalers = scs,
                   encoders = map (\<lambda>c. (c, OneHotEncoder_fit DropIfBinary (B c))) bins,
                   remainder_columns = filter (\<lambda>n. n \<notin> set nums \<and> n \<notin> set bins) (map fst tr) \<rparr>
         \<and> map fst scs = nums"
proof -
  let ?g = "\<lambda>n. (n, StandardScaler_fit (projr (float_column tr n)))"
  have s: "collect (map (fit_scaler tr) nums) = Inr (map ?g nums)"
  proof (rule collect_map_Inr)
    fix n assume "n \<in> set nums"
    from nums [OF this] obtain xs where "float_column tr n = Inr xs" ..
    then show "fit_scaler tr n = Inr (?g n)" by (simp add: fit_scaler_def)
  qed
  have e: "collect (map (fit_encoder tr) bins)
           = Inr (map (\<lambda>c. (c, OneHotEncoder_fit DropIfBinary (B c))) bins)"
    by (rule collect_map_Inr) (simp add: fit_encoder_def bools)
  have "map fst (map ?g nums) = nums" by (simp add: comp_def)
  then show ?thesis
    using rows by (intro exI [of _ "map ?g nums"]) (simp add: fit_def s e)
qed

lemma transform_succeeds:
  assumes rows: "n_rows df \<noteq> 0"
    and sc: "\<And>n. n \<in> fst ` set (scalers st) \<Longrightarrow> \<exists>ys. float_column df n = Inr ys"
    and en: "encoders st = map (\<lambda>c. (c, OneHotEncoder_fit DropIfBinary (B c))) bins"
    and bools: "\<And>c. c \<in> set bins \<Longrightarrow> bool_column df c = Inr (V c)"
    and rem: "\<And>r. r \<in> set (remainder_columns st) \<Longrightarrow> \<exists>col. map_of df r = Some col"
  shows "\<exists>S P. transform st df
           = Inr (S @ concat (map (\<lambda>c. map (\<lambda>k. map (\<lambda>v. Num (if k = v then 1 else 0)) (V c))
                                          (kept_categories (OneHotEncoder_fit DropIfBinary (B c))))
                                 bins) @ P)
         \<and> length S = length (scalers st) \<and> length P = length (remainder_columns st)"
proof -
  let ?gs = "\<lambda>p. map (\<lambda>x. Num (StandardScaler_transform (snd p) x)) (projr (float_column df (fst p)))"
  have s: "collect (map (scale_column df) (scalers st)) = Inr (map ?gs (scalers st))"
  proof (rule collect_map_Inr)
    fix p assume "p \<in> set (scalers st)"
    then have "fst p \<in> fst ` set (scalers st)" by simp
    from sc [OF this] obtain ys where "float_column df (fst p) = Inr ys" ..
    then show "scale_column df p = Inr (?gs p)" by (cases p) (simp add: scale_column_def)
  qed
  let ?ge = "\<lambda>c. map (\<lambda>k. map (\<lambda>v. Num (if k = v then 1 else 0)) (V c))
                    (kept_categories (OneHotEncoder_fit DropIfBinary (B c)))"
  have "collect (map (\<lambda>c. encode_column df (c, OneHotEncoder_fit DropIfBinary (B c))) bins)
        = Inr (map ?ge bins)"
    by (rule collect_map_Inr) (simp add: encode_column_eq [OF bools kept_subset_fit])
  then have e: "collect (map (encode_column df) (encoders st)) = Inr (map ?ge bins)"
    by (simp add: en comp_def)
  let ?gp = "\<lambda>r. the (map_of df r)"
  have p: "collect (map (passthrough_column df) (remainder_columns st))
           = Inr (map ?gp (remainder_columns st))"
  proof (rule collect_map_Inr)
    fix r assume "r \<in> set (remainder_columns st)"
    from rem [OF this] obtain col where "map_of df r = Some col" ..
    then show "passthrough_column df r = Inr (?gp r)" by (simp add: passthrough_column_def)
  qed
  show ?thesis
    using rows
    by (intro exI [of _ "map ?gs (scalers st)"] exI [of _ "map ?gp (remainder_columns st)"])
       (simp add: transform_def s e p)
qed

lemma length_concat_blocks:
  assumes "\<And>c. c \<in> set bins \<Longrightarrow> length (f c) = length (g c)"
  shows "length (concat (map f bins)) = length (concat (map g bins))"
  using assms by (induction bins) auto

lemma filter_frame_blocks:
  assumes lenS: "length S = length A"
    and blocks: "\<And>c. c \<in> set bins \<Longrightarrow> length (f c) = length (g c)"
    and A: "\<And>n. n \<in> set A \<Longrightarrow> \<not> Q n" and R: "\<And>n. n \<in> set R \<Longrightarrow> \<not> Q n"
  shows "filter (\<lambda>(n, col). Q n) (zip (A @ concat (map f bins) @ R) (S @ concat (map g bins) @ P))
         = concat (map (\<lambda>c. filter (\<lambda>(n, col). Q n) (zip (f c) (g c))) bins)"
proof -
  have l: "length (concat (map f bins)) = length (concat (map g bins))"
    using blocks by (rule length_concat_blocks)
  have z: "zip (A @ concat (map f bins) @ R) (S @ concat (map g bins) @ P)
           = zip A S @ concat (map (\<lambda>c. zip (f c) (g c)) bins) @ zip R P"
    using lenS l by (simp add: zip_concat_blocks [OF blocks])
  have a: "filter (\<lambda>(n, col). Q n) (zip A S) = []"
    using A by (auto simp: filter_empty_conv dest: set_zip_leftD)
  have r: "filter (\<lambda>(n, col). Q n) (zip R P) = []"
    using R by (auto simp: filter_empty_conv dest: set_zip_leftD)
  show ?thesis
    by (simp add: z a r filter_concat comp_def)
qed

lemma sort_remdups_unique:
  assumes "sorted ys" and "distinct ys" and "set bs = set ys"
  shows "sort (remdups bs) = ys"
  by (rule sorted_distinct_set_unique) (use assms in simp_all)

lemma kept_two_categories:
  fixes bs :: "bool list"
  assumes "card (set bs) = 2"
  shows "kept_categories (OneHotEncoder_fit DropIfBinary bs) = [True]"
proof -
  have "set bs = UNIV"
    by (rule card_subset_eq) (use assms in \<open>simp_all add: card_UNIV_bool\<close>)
  then have "set bs = set [False, True]" by (auto simp: UNIV_bool)
  then have "sort (remdups bs) = [False, True]"
    by (intro sort_remdups_unique) simp_all
  then show ?thesis
    by (simp add: kept_categories_def OneHotEncoder_fit_def Let_def)
qed

lemma kept_one_category:
  fixes bs :: "bool list"
  assumes "set bs = {b}"
  shows "kept_categories (OneHotEncoder_fit DropIfBinary bs) = [b]"
proof -
  have "sort (remdups bs) = [b]"
    by (rule sort_remdups_unique) (use assms in simp_all)
  then show ?thesis
    by (simp add: kept_categories_def OneHotEncoder_fit_def Let_def)
qed

lemma fst_image_cast_frame: "fst ` set (cast_frame cols df) = fst ` set df"
proof -
  have "set (map fst (cast_frame cols df)) = set (map fst df)"
    by (simp only: map_fst_cast_frame)
  then show ?thesis by (simp only: set_map)
qed

lemma encoded_columns:
  assumes tr_cols: "set binary_columns \<subseteq> fst ` set train_df"
    and te_cols: "set binary_columns \<subseteq> fst ` set test_df"
    and dist: "distinct binary_columns"
    and nums: "\<forall>n \<in> set numeric_columns. n \<notin> set binary_columns
                 \<and> (\<exists>xs. float_column train_df n = Inr xs)
                 \<and> (\<exists>ys. float_column test_df n = Inr ys)"
    and rows: "n_rows train_df \<noteq> 0" "n_rows test_df \<noteq> 0"
    and rest: "fst ` set train_df \<subseteq> fst ` set test_df"
    and c: "c \<in> set binary_columns"
    and tcol: "map_of train_df c = Some tcol" and vcol: "map_of test_df c = Some vcol"
  shows "\<exists>train_scaled test_scaled column_names.
           snd (preprocess_data train_df test_df numeric_columns binary_columns)
             = Inr (train_scaled, test_scaled, column_names)
         \<and> filter (\<lambda>(n, col). n = ''onehotencoder__'' @ c @ ''_True''
                              \<or> n = ''onehotencoder__'' @ c @ ''_False'') train_scaled
             = map (\<lambda>k. (''onehotencoder__'' @ c @ ''_'' @ str_bool k,
                          map (\<lambda>x. Num (if k = truthy x then 1 else 0)) tcol))
                   (kept_categories (OneHotEncoder_fit DropIfBinary (map truthy tcol)))
         \<and> filter (\<lambda>(n, col). n = ''onehotencoder__'' @ c @ ''_True''
                              \<or> n = ''onehotencoder__'' @ c @ ''_False'') test_scaled
             = map (\<lambda>k. (''onehotencoder__'' @ c @ ''_'' @ str_bool k,
                          map (\<lambda>x. Num (if k = truthy x then 1 else 0)) vcol))
                   (kept_categories (OneHotEncoder_fit DropIfBinary (map truthy tcol)))"
proof -
  let ?tr = "cast_frame binary_columns train_df" and ?te = "cast_frame binary_columns test_df"
  let ?B = "\<lambda>c'. map truthy (the (map_of train_df c'))"
  let ?V = "\<lambda>c'. map truthy (the (map_of test_df c'))"
  let ?K = "\<lambda>c'. kept_categories (OneHotEncoder_fit DropIfBinary (?B c'))"
  let ?name = "\<lambda>c' k. ''onehotencoder__'' @ c' @ ''_'' @ str_bool k"
  let ?Q = "\<lambda>n. n = ''onehotencoder__'' @ c @ ''_True'' \<or> n = ''onehotencoder__'' @ c @ ''_False''"
  have bt: "bool_column ?tr c' = Inr (?B c')" if "c' \<in> set binary_columns" for c'
  proof -
    from that tr_cols have "c' \<in> fst ` set train_df" by auto
    then obtain col where "map_of train_df c' = Some col"
      by (metis domD domI dom_map_of_conv_image_fst)
    with bool_column_cast_frame [OF that this] show ?thesis by simp
  qed
  have bv: "bool_column ?te c' = Inr (?V c')" if "c' \<in> set binary_columns" for c'
  proof -
    from that te_cols have "c' \<in> fst ` set test_df" by auto
    then obtain col where "map_of test_df c' = Some col"
      by (metis domD domI dom_map_of_conv_image_fst)
    with bool_column_cast_frame [OF that this] show ?thesis by simp
  qed
  have ft: "\<exists>xs. float_column ?tr n = Inr xs" if "n \<in> set numeric_columns" for n
    using nums that by (simp add: float_column_cast_frame)
  have fv: "\<exists>ys. float_column ?te n = Inr ys" if "n \<in> set numeric_columns" for n
    using nums that by (simp add: float_column_cast_frame)
  have r1: "n_rows ?tr \<noteq> 0" and r2: "n_rows ?te \<noteq> 0"
    using rows by (simp_all add: n_rows_cast_frame)
  from fit_succeeds [where tr = ?tr and nums = numeric_columns and bins = binary_columns
      and B = ?B, OF r1 ft bt]
  obtain scs where fit: "fit ?tr numeric_columns binary_columns
        = Inr \<lparr> scalers = scs,
                encoders = map (\<lambda>c. (c, OneHotEncoder_fit DropIfBinary (?B c))) binary_columns,
                remainder_columns = filter (\<lambda>n. n \<notin> set numeric_columns \<and> n \<notin> set binary_columns)
                                           (map fst ?tr) \<rparr>"
    and scs: "map fst scs = numeric_columns"
    by blast
  define st where "st = \<lparr> scalers = scs,
                encoders = map (\<lambda>c. (c, OneHotEncoder_fit DropIfBinary (?B c))) binary_columns,
                remainder_columns = filter (\<lambda>n. n \<notin> set numeric_columns \<and> n \<notin> set binary_columns)
                                           (map fst ?tr) \<rparr>"
  have st_sc: "scalers st = scs"
    and st_en: "encoders st = map (\<lambda>c. (c, OneHotEncoder_fit DropIfBinary (?B c))) binary_columns"
    and st_re: "remainder_columns st = filter (\<lambda>n. n \<notin> set numeric_columns \<and> n \<notin> set binary_columns)
                                           (map fst train_df)"
    by (simp_all add: st_def map_fst_cast_frame)
  have sc_set: "fst ` set (scalers st) = set numeric_columns"
    using scs by (simp add: st_sc flip: set_map)
  have rem_tr: "\<exists>col. map_of ?tr r = Some col" if "r \<in> set (remainder_columns st)" for r
  proof -
    from that have "r \<in> fst ` set train_df" by (simp add: st_re)
    then have "r \<in> fst ` set ?tr" by (simp only: fst_image_cast_frame)
    then show ?thesis by (metis domD domI dom_map_of_conv_image_fst)
  qed
  have rem_te: "\<exists>col. map_of ?te r = Some col" if "r \<in> set (remainder_columns st)" for r
  proof -
    from that have "r \<in> fst ` set train_df" by (simp add: st_re)
    with rest have "r \<in> fst ` set test_df" by auto
    then have "r \<in> fst ` set ?te" by (simp only: fst_image_cast_frame)
    then show ?thesis by (metis domD domI dom_map_of_conv_image_fst)
  qed
  have sc_tr: "\<exists>ys. float_column ?tr n = Inr ys" if "n \<in> fst ` set (scalers st)" for n
    using that ft unfolding sc_set by blast
  have sc_te: "\<exists>ys. float_column ?te n = Inr ys" if "n \<in> fst ` set (scalers st)" for n
    using that fv unfolding sc_set by blast
  from transform_succeeds [where df = ?tr and st = st and B = ?B and bins = binary_columns
      and V = ?B, OF r1 sc_tr st_en bt rem_tr]
  obtain Sa Pa where ta: "transform st ?tr
        = Inr (Sa @ concat (map (\<lambda>c'. map (\<lambda>k. map (\<lambda>v. Num (if k = v then 1 else 0)) (?B c')) (?K c'))
                             binary_columns) @ Pa)"
    and la': "length Sa = length (scalers st)"
    by blast
  from transform_succeeds [where df = ?te and st = st and B = ?B and bins = binary_columns
      and V = ?V, OF r2 sc_te st_en bv rem_te]
  obtain Sb Pb where tb: "transform st ?te
        = Inr (Sb @ concat (map (\<lambda>c'. map (\<lambda>k. map (\<lambda>v. Num (if k = v then 1 else 0)) (?V c')) (?K c'))
                             binary_columns) @ Pb)"
    and lb': "length Sb = length (scalers st)"
    by blast
  have la: "length Sa = length scs" and lb: "length Sb = length scs"
    using la' lb' by (simp_all only: st_sc)
  let ?A = "map (\<lambda>(c, _). ''standardscaler__'' @ c) scs"
  let ?R = "map (\<lambda>c. ''remainder__'' @ c) (remainder_columns st)"
  let ?f = "\<lambda>c'. map (?name c') (?K c')"
  have names: "get_feature_names_out st = ?A @ concat (map ?f binary_columns) @ ?R"
    by (simp add: get_feature_names_out_def st_sc st_en comp_def)
  have run: "snd (preprocess_data train_df test_df numeric_columns binary_columns)
        = Inr (zip (get_feature_names_out st)
                   (Sa @ concat (map (\<lambda>c'. map (\<lambda>k. map (\<lambda>v. Num (if k = v then 1 else 0)) (?B c')) (?K c'))
                                     binary_columns) @ Pa),
               zip (get_feature_names_out st)
                   (Sb @ concat (map (\<lambda>c'. map (\<lambda>k. map (\<lambda>v. Num (if k = v then 1 else 0)) (?V c')) (?K c'))
                                     binary_columns) @ Pb),
               get_feature_names_out st)"
    using fit ta tb
    by (simp add: preprocess_data_def astype_bool_columns_present [OF tr_cols]
        astype_bool_columns_present [OF te_cols] st_def Let_def)
  have qa: "\<not> ?Q n" if "n \<in> set ?A" for n using that by auto
  have qr: "\<not> ?Q n" if "n \<in> set ?R" for n using that by auto
  have block: "filter (\<lambda>(n, col). ?Q n) (zip (?f c') (map (\<lambda>k. map (\<lambda>v. Num (if k = v then 1 else 0)) (W c')) (?K c')))
        = (if c' = c then map (\<lambda>k. (?name c k, map (\<lambda>v. Num (if k = v then 1 else 0)) (W c))) (?K c) else [])"
    for c' and W :: "string \<Rightarrow> bool list"
  proof (cases "c' = c")
    case True
    have "?Q (?name c k)" for k by (cases k) (simp_all add: str_bool_def)
    then show ?thesis
      by (simp add: True zip_map_same filter_map comp_def)
  next
    case False
    have "\<not> ?Q (?name c' k)" for k
    proof
      assume "?Q (?name c' k)"
      then have "c' @ ''_'' @ str_bool k = c @ ''_'' @ str_bool True
               \<or> c' @ ''_'' @ str_bool k = c @ ''_'' @ str_bool False"
        by (simp add: str_bool_def)
      with one_hot_name_inject False show False by blast
    qed
    then show ?thesis
      by (simp add: False zip_map_same filter_map comp_def)
  qed
  have pick: "filter (\<lambda>(n, col). ?Q n)
                (zip (get_feature_names_out st)
                     (S @ concat (map (\<lambda>c'. map (\<lambda>k. map (\<lambda>v. Num (if k = v then 1 else 0)) (W c')) (?K c'))
                                       binary_columns) @ P))
        = map (\<lambda>k. (?name c k, map (\<lambda>v. Num (if k = v then 1 else 0)) (W c))) (?K c)"
    if "length S = length scs" for S P and W :: "string \<Rightarrow> bool list"
  proof -
    have "filter (\<lambda>(n, col). ?Q n)
                (zip (?A @ concat (map ?f binary_columns) @ ?R)
                     (S @ concat (map (\<lambda>c'. map (\<lambda>k. map (\<lambda>v. Num (if k = v then 1 else 0)) (W c')) (?K c'))
                                       binary_columns) @ P))
          = concat (map (\<lambda>c'. filter (\<lambda>(n, col). ?Q n)
                                (zip (?f c') (map (\<lambda>k. map (\<lambda>v. Num (if k = v then 1 else 0)) (W c')) (?K c'))))
                        binary_columns)"
      by (rule filter_frame_blocks) (use that qa qr in simp_all)
    also have "\<dots> = concat (map (\<lambda>c'. if c' = c
                        then map (\<lambda>k. (?name c k, map (\<lambda>v. Num (if k = v then 1 else 0)) (W c))) (?K c)
                        else []) binary_columns)"
      by (simp only: block)
    also have "\<dots> = map (\<lambda>k. (?name c k, map (\<lambda>v. Num (if k = v then 1 else 0)) (W c))) (?K c)"
      by (rule concat_single_block [OF dist c])
    finally show ?thesis by (simp only: names)
  qed
  have Bc: "?B c = map truthy tcol" and Vc: "?V c = map truthy vcol"
    by (simp_all add: tcol vcol)
  from pick [OF la, of ?B Pa] pick [OF lb, of ?V Pb]
  show ?thesis
    unfolding run by (intro exI conjI refl) (simp_all add: Bc Vc comp_def)
qed

text \<open>
  Claim C8. Let the frames have the columns that \<open>preprocess_data\<close> needs (the binary
  columns, named once each, numeric columns that are numeric, at least one row, and in the
  test frame every column of the training frame). Then \<open>preprocess_data\<close> returns, whatever
  categories the test data holds. For a binary column \<open>c\<close> with exactly two observed
  categories in the training data, each transformed frame holds exactly one column for
  \<open>c\<close>, named \<open>onehotencoder__c_True\<close>, of 0/1 values (the level False is dropped). When
  only one category was observed in training, a test value of the unseen category is
  encoded as 0 in the only column for \<open>c\<close>, that is as all zeros, and nothing is raised.
\<close>

theorem binary_column_one_hot:
  assumes "set binary_columns \<subseteq> fst ` set train_df"
    and "set binary_columns \<subseteq> fst ` set test_df"
    and "distinct binary_columns"
    and "\<forall>n \<in> set numeric_columns. n \<notin> set binary_columns
            \<and> (\<exists>xs. float_column train_df n = Inr xs)
            \<and> (\<exists>ys. float_column test_df n = Inr ys)"
    and "n_rows train_df \<noteq> 0" and "n_rows test_df \<noteq> 0"
    and "fst ` set train_df \<subseteq> fst ` set test_df"
    and "c \<in> set binary_columns"
    and "map_of train_df c = Some tcol" and "map_of test_df c = Some vcol"
  shows "\<exists>train_scaled test_scaled column_names.
           snd (preprocess_data train_df test_df numeric_columns binary_columns)
             = Inr (train_scaled, test_scaled, column_names)
         \<and> (card (truthy ` set tcol) = 2 \<longrightarrow>
               filter (\<lambda>(n, col). n = ''onehotencoder__'' @ c @ ''_True''
                                  \<or> n = ''onehotencoder__'' @ c @ ''_False'') train_scaled
                 = [(''onehotencoder__'' @ c @ ''_True'',
                     map (\<lambda>x. Num (if truthy x then 1 else 0)) tcol)]
             \<and> filter (\<lambda>(n, col). n = ''onehotencoder__'' @ c @ ''_True''
                                  \<or> n = ''onehotencoder__'' @ c @ ''_False'') test_scaled
                 = [(''onehotencoder__'' @ c @ ''_True'',
                     map (\<lambda>x. Num (if truthy x then 1 else 0)) vcol)])
         \<and> (truthy ` set tcol = {True} \<longrightarrow>
               filter (\<lambda>(n, col). n = ''onehotencoder__'' @ c @ ''_True''
                                  \<or> n = ''onehotencoder__'' @ c @ ''_False'') test_scaled
                 = [(''onehotencoder__'' @ c @ ''_True'',
                     map (\<lambda>x. Num (if truthy x then 1 else 0)) vcol)])
         \<and> (truthy ` set tcol = {False} \<longrightarrow>
               filter (\<lambda>(n, col). n = ''onehotencoder__'' @ c @ ''_True''
                                  \<or> n = ''onehotencoder__'' @ c @ ''_False'') test_scaled
                 = [(''onehotencoder__'' @ c @ ''_False'',
                     map (\<lambda>x. Num (if truthy x then 0 else 1)) vcol)])"
proof -
  let ?bs = "map truthy tcol"
  let ?Q = "\<lambda>(n :: string, col :: cell list). n = ''onehotencoder__'' @ c @ ''_True''
                                  \<or> n = ''onehotencoder__'' @ c @ ''_False''"
  from encoded_columns [OF assms]
  obtain train_scaled test_scaled column_names where
    run: "snd (preprocess_data train_df test_df numeric_columns binary_columns)
             = Inr (train_scaled, test_scaled, column_names)"
    and tr: "filter ?Q train_scaled
             = map (\<lambda>k. (''onehotencoder__'' @ c @ ''_'' @ str_bool k,
                          map (\<lambda>x. Num (if k = truthy x then 1 else 0)) tcol))
                   (kept_categories (OneHotEncoder_fit DropIfBinary ?bs))"
    and te: "filter ?Q test_scaled
             = map (\<lambda>k. (''onehotencoder__'' @ c @ ''_'' @ str_bool k,
                          map (\<lambda>x. Num (if k = truthy x then 1 else 0)) vcol))
                   (kept_categories (OneHotEncoder_fit DropIfBinary ?bs))"
    by blast
  have s: "set ?bs = truthy ` set tcol" by simp
  have two: "kept_categories (OneHotEncoder_fit DropIfBinary ?bs) = [True]"
    if "card (truthy ` set tcol) = 2"
    by (rule kept_two_categories) (use that in \<open>simp only: s\<close>)
  have one: "kept_categories (OneHotEncoder_fit DropIfBinary ?bs) = [b]"
    if "truthy ` set tcol = {b}" for b
    by (rule kept_one_category) (use that in \<open>simp only: s\<close>)
  have a: "filter ?Q train_scaled = [(''onehotencoder__'' @ c @ ''_True'',
                     map (\<lambda>x. Num (if truthy x then 1 else 0)) tcol)]"
      "filter ?Q test_scaled = [(''onehotencoder__'' @ c @ ''_True'',
                     map (\<lambda>x. Num (if truthy x then 1 else 0)) vcol)]"
    if "card (truthy ` set tcol) = 2"
    unfolding tr te two [OF that] by (simp_all add: str_bool_def)
  have b: "filter ?Q test_scaled = [(''onehotencoder__'' @ c @ ''_True'',
                     map (\<lambda>x. Num (if truthy x then 1 else 0)) vcol)]"
    if "truthy ` set tcol = {True}"
    unfolding te one [OF that] by (simp add: str_bool_def)
  have d: "filter ?Q test_scaled = [(''onehotencoder__'' @ c @ ''_False'',
                     map (\<lambda>x. Num (if truthy x then 0 else 1)) vcol)]"
    if "truthy ` set tcol = {False}"
    unfolding te one [OF that] by (simp add: str_bool_def)
  show ?thesis
    using run a b d by (intro exI [of _ train_scaled] exI [of _ test_scaled] exI [of _ column_names]) blast
qed

text \<open>
  A training column \<open>sex\<close> with both values gives the single column
  \<open>onehotencoder__sex_True\<close>; a training column that is always 1 sends the unseen test value
  0 to 0, where \<open>handle_unknown = 'error'\<close> would raise.
\<close>

theorem binary_column_one_hot_witness:
  "(\<exists>train_scaled test_scaled column_names.
      snd (preprocess_data [(''sex'', [Num 1, Num 0]), (''age'', [Num 60, Num 62])]
                           [(''sex'', [Num 0]), (''age'', [Num 65])] [''age''] [''sex''])
        = Inr (train_scaled, test_scaled, column_names)
      \<and> filter (\<lambda>(n, col). n = ''onehotencoder__'' @ ''sex'' @ ''_True''
                           \<or> n = ''onehotencoder__'' @ ''sex'' @ ''_False'') test_scaled
          = [(''onehotencoder__'' @ ''sex'' @ ''_True'', [Num 0])])
   \<and> (\<exists>train_scaled test_scaled column_names.
      snd (preprocess_data [(''sex'', [Num 1, Num 1]), (''age'', [Num 60, Num 62])]
                           [(''sex'', [Num 0, Num 1]), (''age'', [Num 65, Num 61])] [''age''] [''sex''])
        = Inr (train_scaled, test_scaled, column_names)
      \<and> filter (\<lambda>(n, col). n = ''onehotencoder__'' @ ''sex'' @ ''_True''
                           \<or> n = ''onehotencoder__'' @ ''sex'' @ ''_False'') test_scaled
          = [(''onehotencoder__'' @ ''sex'' @ ''_True'', [Num 0, Num 1])])
   \<and> OneHotEncoder_transform ErrorOnUnknown (OneHotEncoder_fit DropIfBinary [True, True]) False
       = Inl (ValueError ''Found unknown categories'')"
proof -
  have two: "card (truthy ` set [Num 1, Num 0]) = 2" by simp
  have only: "truthy ` set [Num 1, Num 1] = {True}" by simp
  have 1: "\<exists>train_scaled test_scaled column_names.
      snd (preprocess_data [(''sex'', [Num 1, Num 0]), (''age'', [Num 60, Num 62])]
                           [(''sex'', [Num 0]), (''age'', [Num 65])] [''age''] [''sex''])
        = Inr (train_scaled, test_scaled, column_names)
      \<and> filter (\<lambda>(n, col). n = ''onehotencoder__'' @ ''sex'' @ ''_True''
                           \<or> n = ''onehotencoder__'' @ ''sex'' @ ''_False'') test_scaled
          = [(''onehotencoder__'' @ ''sex'' @ ''_True'', [Num 0])]"
    using binary_column_one_hot
      [of "[''sex'']" "[(''sex'', [Num 1, Num 0]), (''age'', [Num 60, Num 62])]"
          "[(''sex'', [Num 0]), (''age'', [Num 65])]" "[''age'']" "''sex''"
          "[Num 1, Num 0]" "[Num 0]"] two
    by (simp add: float_column_def float_cells_def n_rows_def) blast
  have 2: "\<exists>train_scaled test_scaled column_names.
      snd (preprocess_data [(''sex'', [Num 1, Num 1]), (''age'', [Num 60, Num 62])]
                           [(''sex'', [Num 0, Num 1]), (''age'', [Num 65, Num 61])] [''age''] [''sex''])
        = Inr (train_scaled, test_scaled, column_names)
      \<and> filter (\<lambda>(n, col). n = ''onehotencoder__'' @ ''sex'' @ ''_True''
                           \<or> n = ''onehotencoder__'' @ ''sex'' @ ''_False'') test_scaled
          = [(''onehotencoder__'' @ ''sex'' @ ''_True'', [Num 0, Num 1])]"
    using binary_column_one_hot
      [of "[''sex'']" "[(''sex'', [Num 1, Num 1]), (''age'', [Num 60, Num 62])]"
          "[(''sex'', [Num 0, Num 1]), (''age'', [Num 65, Num 61])]" "[''age'']" "''sex''"
          "[Num 1, Num 1]" "[Num 0, Num 1]"] only
    by (simp add: float_column_def float_cells_def n_rows_def)
  have 3: "OneHotEncoder_transform ErrorOnUnknown (OneHotEncoder_fit DropIfBinary [True, True]) False
       = Inl (ValueError ''Found unknown categories'')"
    by (simp add: OneHotEncoder_transform_def OneHotEncoder_fit_def Let_def)
  from 1 2 3 show ?thesis by (intro conjI)
qed

end
